theory Spec2Isabelle
  imports Complex_Main "HOL-Library.Char_ord" "HOL-Library.List_Lexorder"
begin

section \<open>Python values: exceptions and string formatting\<close>

text \<open>
  The script \<^verbatim>\<open>main_metaanalysis.py\<close> is glue code around numpy, scipy and corelay.
  Every exception it can raise in the modelled parts is a value of \<open>error\<close>; a function
  that can raise returns \<open>error + 'a\<close>, with \<open>Inl\<close> the exception.
  Floating-point numbers are modelled by the reals (exact arithmetic).
\<close>

datatype error =
    AssertionError string
  | FileNotFoundError string
  | FileExistsError string
  | IsADirectoryError string
  | AttributeError string
  | KeyError string
  | IndexError
  | ValueError
  | TypeError

type_synonym path = string

definition and_then :: "error + 'a \<Rightarrow> ('a \<Rightarrow> error + 'b) \<Rightarrow> error + 'b" where
  "and_then r f = (case r of Inl e \<Rightarrow> Inl e | Inr v \<Rightarrow> f v)"

text \<open>A list comprehension whose element expression can raise: the first exception wins.\<close>

fun comprehension :: "('a \<Rightarrow> error + 'b) \<Rightarrow> 'a list \<Rightarrow> error + 'b list" where
  "comprehension f [] = Inr []"
| "comprehension f (x # xs) =
     and_then (f x) (\<lambda>v. and_then (comprehension f xs) (\<lambda>vs. Inr (v # vs)))"

definition digit_char :: "nat \<Rightarrow> char" where
  "digit_char d = ''0123456789'' ! d"

text \<open>\<^verbatim>\<open>str(n)\<close> and \<^verbatim>\<open>'{}'.format(n)\<close> for an integer.\<close>

fun str_nat :: "nat \<Rightarrow> string" where
  "str_nat n = (if n < 10 then [digit_char n] else str_nat (n div 10) @ [digit_char (n mod 10)])"

definition str_int :: "int \<Rightarrow> string" where
  "str_int i = (if i < 0 then CHR ''-'' # str_nat (nat (- i)) else str_nat (nat i))"

definition str_bool :: "bool \<Rightarrow> string" where
  "str_bool b = (if b then ''True'' else ''False'')"

text \<open>
  \<^verbatim>\<open>int(s)\<close> on a string of decimal digits. Python also accepts a sign, surrounding blanks
  and underscores; the script only converts strings that passed the membership test in
  \<^verbatim>\<open>FOLDS\<close>, which are plain digit strings, so everything else is a \<open>ValueError\<close> here.
\<close>

definition digit_value :: "char \<Rightarrow> nat option" where
  "digit_value c = map_of (zip ''0123456789'' [0 ..< 10]) c"

fun digits_value :: "string \<Rightarrow> nat \<Rightarrow> nat option" where
  "digits_value [] acc = Some acc"
| "digits_value (c # cs) acc =
     (case digit_value c of None \<Rightarrow> None | Some d \<Rightarrow> digits_value cs (10 * acc + d))"

definition py_int :: "string \<Rightarrow> error + int" where
  "py_int s =
     (if s = [] then Inl ValueError
      else case digits_value s 0 of None \<Rightarrow> Inl ValueError | Some n \<Rightarrow> Inr (int n))"

text \<open>\<^verbatim>\<open>sep.join(xs)\<close>.\<close>

fun join :: "string \<Rightarrow> string list \<Rightarrow> string" where
  "join sep [] = []"
| "join sep [x] = x"
| "join sep (x # y # ys) = x @ sep @ join sep (y # ys)"

text \<open>
  \<^verbatim>\<open>repr(s)\<close> of a string without quotes, backslashes or control characters (every
  vocabulary entry is one), and \<^verbatim>\<open>str(xs)\<close> of a list of such strings, as
  \<^verbatim>\<open>'{}'.format(xs)\<close> prints it.
\<close>

definition repr_str :: "string \<Rightarrow> string" where
  "repr_str s = [CHR 0x27] @ s @ [CHR 0x27]"

definition str_list :: "string list \<Rightarrow> string" where
  "str_list xs = ''['' @ join '', '' (map repr_str xs) @ '']''"

section \<open>numpy operations used by the script\<close>

text \<open>
  A one-dimensional array, and the leading (sample) axis of a matrix, is a list; a matrix
  is the list of its rows.
\<close>

text \<open>\<^verbatim>\<open>a[i]\<close> with an integer: a negative index counts from the end.\<close>

definition np_at :: "'a list \<Rightarrow> int \<Rightarrow> error + 'a" where
  "np_at a i =
     (if 0 \<le> i \<and> i < int (length a) then Inr (a ! nat i)
      else if - int (length a) \<le> i \<and> i < 0 then Inr (a ! nat (int (length a) + i))
      else Inl IndexError)"

text \<open>\<^verbatim>\<open>a[idx]\<close> with an integer index array, along the first axis.\<close>

definition np_take :: "'a list \<Rightarrow> int list \<Rightarrow> error + 'a list" where
  "np_take a idx = comprehension (np_at a) idx"

text \<open>
  \<^verbatim>\<open>a[mask]\<close> with a boolean mask along the first axis; numpy raises \<open>IndexError\<close>
  when the mask's length is not the array's.
\<close>

definition np_mask :: "'a list \<Rightarrow> bool list \<Rightarrow> error + 'a list" where
  "np_mask a sel =
     (if length sel = length a then Inr (map fst (filter snd (zip a sel)))
      else Inl IndexError)"

text \<open>\<^verbatim>\<open>np.unique(y)\<close>: the distinct values, ascending.\<close>

definition np_unique :: "int list \<Rightarrow> int list" where
  "np_unique ys = sort (remdups ys)"

text \<open>\<^verbatim>\<open>np.argmax\<close> of one row: the first position of the maximum; an empty row raises.\<close>

fun argmax_scan :: "real list \<Rightarrow> nat \<Rightarrow> real \<Rightarrow> nat \<Rightarrow> nat" where
  "argmax_scan [] i best besti = besti"
| "argmax_scan (x # xs) i best besti =
     (if best < x then argmax_scan xs (Suc i) x i else argmax_scan xs (Suc i) best besti)"

definition np_argmax :: "real list \<Rightarrow> error + int" where
  "np_argmax row =
     (case row of [] \<Rightarrow> Inl ValueError | x # xs \<Rightarrow> Inr (int (argmax_scan xs 1 x 0)))"

text \<open>\<^verbatim>\<open>np.argmax(m, axis=1)\<close>.\<close>

definition np_argmax_axis1 :: "real list list \<Rightarrow> error + int list" where
  "np_argmax_axis1 m = comprehension np_argmax m"

text \<open>
  \<^verbatim>\<open>np.concatenate(parts, axis=0)\<close>; an empty list of parts raises. (So do parts whose
  trailing dimensions differ; the shape of a sample is not modelled.)
\<close>

definition np_concatenate :: "'a list list \<Rightarrow> error + 'a list" where
  "np_concatenate parts = (if parts = [] then Inl ValueError else Inr (concat parts))"

section \<open>The file system and the .mat files\<close>

text \<open>
  A .mat file as \<^verbatim>\<open>scipy.io.loadmat\<close> returns it: a dictionary, here restricted to
  the variables the script reads, each absent (\<open>None\<close>) or present with its array.
  \<open>'s\<close> is the type of one sample (its feature array) of the input data and of the
  relevance attributions.
\<close>

record 's matfile =
  var_Y :: "real list list option"
  var_LS :: "real list list option"
  var_X :: "'s list option"
  var_P :: "int list list option"
  var_S :: "int list list list list option"
  var_y_pred :: "real list list option"
  var_R_pred_dom_epsilon :: "'s list option"
  var_R_pred_act_epsilon :: "'s list option"

text \<open>\<^verbatim>\<open>m[name]\<close>: a missing variable raises \<open>KeyError\<close>.\<close>

definition mat_get :: "'a option \<Rightarrow> string \<Rightarrow> error + 'a" where
  "mat_get v name = (case v of None \<Rightarrow> Inl (KeyError name) | Some a \<Rightarrow> Inr a)"

datatype 's node = Dir | MatFile "'s matfile" | OtherFile

type_synonym 's filesystem = "path \<Rightarrow> 's node option"

definition isdir :: "'s filesystem \<Rightarrow> path \<Rightarrow> bool" where
  "isdir fs p = (fs p = Some Dir)"

definition isfile :: "'s filesystem \<Rightarrow> path \<Rightarrow> bool" where
  "isfile fs p = (case fs p of None \<Rightarrow> False | Some Dir \<Rightarrow> False | Some _ \<Rightarrow> True)"

definition loadmat :: "'s filesystem \<Rightarrow> path \<Rightarrow> error + 's matfile" where
  "loadmat fs p =
     (case fs p of
        None \<Rightarrow> Inl (FileNotFoundError p)
      | Some Dir \<Rightarrow> Inl (IsADirectoryError p)
      | Some OtherFile \<Rightarrow> Inl ValueError
      | Some (MatFile m) \<Rightarrow> Inr m)"

text \<open>
  Reading files is an effect: a computation takes the list of paths \<^verbatim>\<open>loadmat\<close> has
  been called on so far and returns it extended, together with its result.
\<close>

type_synonym 'a io = "path list \<Rightarrow> (error + 'a) \<times> path list"

definition io_pure :: "error + 'a \<Rightarrow> 'a io" where
  "io_pure r loaded = (r, loaded)"

definition io_bind :: "'a io \<Rightarrow> ('a \<Rightarrow> 'b io) \<Rightarrow> 'b io" where
  "io_bind m f loaded =
     (case m loaded of (Inl e, loaded') \<Rightarrow> (Inl e, loaded') | (Inr v, loaded') \<Rightarrow> f v loaded')"

definition io_loadmat :: "'s filesystem \<Rightarrow> path \<Rightarrow> 's matfile io" where
  "io_loadmat fs p loaded = (loadmat fs p, loaded @ [p])"

section \<open>The data loader\<close>

definition ANALYSIIS_DATA :: "string list" where
  "ANALYSIIS_DATA = [''relevance'', ''inputs'']"

definition ANALYSIS_GROUPING :: "string list" where
  "ANALYSIS_GROUPING = [''ground_truth'', ''as_predicted'', ''all'']"

definition ATTRIBUTION_TYPES :: "string list" where
  "ATTRIBUTION_TYPES = [''dom'', ''act'']"

definition MODELS :: "string list" where
  "MODELS = [''Cnn1DC8'', ''Mlp3Layer768Unit'', ''MlpLinear'', ''SvmLinearL2C1em1'']"

definition FOLDS :: "string list" where
  "FOLDS = map str_nat [0 ..< 10] @ [''all'']"

record 's evaluation_group =
  grp_cls :: int
  grp_y :: "int list"
  grp_R :: "'s list"
  grp_y_injury_type :: "real list list"
  grp_y_health_type :: "real list list"
  grp_y_subject :: "real list list"
  grp_split_indices :: "int list"
  grp_inputs :: "'s list"
  grp_relevances :: "'s list"

text \<open>\<^verbatim>\<open>assert cond, msg\<close>.\<close>

definition py_assert :: "bool \<Rightarrow> string \<Rightarrow> error + unit" where
  "py_assert cond msg = (if cond then Inr () else Inl (AssertionError msg))"

text \<open>Lines 63 to 68: the six assertions, in their order, with their messages.\<close>

definition validate_selectors ::
  "'s filesystem \<Rightarrow> path \<Rightarrow> string \<Rightarrow> string \<Rightarrow> string \<Rightarrow> string \<Rightarrow> string \<Rightarrow> error + unit" where
  "validate_selectors fs input_root model foldsel analysis_data attribution_type analysis_groups =
     and_then (py_assert (isdir fs input_root)
       (''Specified project root folder \"'' @ input_root @ ''\" does not exist!'')) (\<lambda>_.
     and_then (py_assert (model \<in> set MODELS)
       (''Invalid model argument \"'' @ model @ ''\". Pick from: '' @ str_list MODELS)) (\<lambda>_.
     and_then (py_assert (foldsel \<in> set FOLDS)
       (''Invalid model argument \"'' @ foldsel @ ''\". Pick from: '' @ str_list FOLDS)) (\<lambda>_.
     and_then (py_assert (analysis_data \<in> set ANALYSIIS_DATA)
       (''Invalid model argument \"'' @ analysis_data @ ''\". Pick from: ''
          @ str_list ANALYSIIS_DATA)) (\<lambda>_.
     and_then (py_assert (attribution_type \<in> set ATTRIBUTION_TYPES)
       (''Invalid model argument \"'' @ attribution_type @ ''\". Pick from: ''
          @ str_list ATTRIBUTION_TYPES)) (\<lambda>_.
     py_assert (analysis_groups \<in> set ANALYSIS_GROUPING)
       (''Invalid analysis_groups argument \"'' @ analysis_groups @ ''\". Pick from: ''
          @ str_list ANALYSIS_GROUPING))))))"

text \<open>Lines 79 to 82: the fold selector becomes the list of fold numbers.\<close>

definition resolve_fold :: "string \<Rightarrow> error + int list" where
  "resolve_fold foldsel =
     (if foldsel = ''all'' then comprehension py_int (filter (\<lambda>f. f \<noteq> ''all'') FOLDS)
      else and_then (py_int foldsel) (\<lambda>f. Inr [f]))"

definition outputs_path :: "path \<Rightarrow> string \<Rightarrow> int \<Rightarrow> path" where
  "outputs_path input_root model f =
     input_root @ ''/Injury/GRF_AV/'' @ model @ ''/part-'' @ str_int f @ ''/outputs.mat''"

text \<open>
  \<^verbatim>\<open>model_outputs['R_pred_{}_epsilon'.format(attribution_type)]\<close>: the variable name
  is built from the attribution type.
\<close>

definition get_R_pred :: "'s matfile \<Rightarrow> string \<Rightarrow> error + 's list" where
  "get_R_pred m attribution_type =
     (if attribution_type = ''dom'' then mat_get (var_R_pred_dom_epsilon m) ''R_pred_dom_epsilon''
      else if attribution_type = ''act'' then mat_get (var_R_pred_act_epsilon m) ''R_pred_act_epsilon''
      else Inl (KeyError (''R_pred_'' @ attribution_type @ ''_epsilon'')))"

text \<open>Line 84: \<^verbatim>\<open>splits['S'][0,f][0]\<close> for each fold.\<close>

definition fold_indices :: "int list list list list \<Rightarrow> int \<Rightarrow> error + int list" where
  "fold_indices S f =
     and_then (np_at S 0) (\<lambda>row. and_then (np_at row f) (\<lambda>cell. np_at cell 0))"

text \<open>
  Lines 87 to 90: the loop over the folds, appending each fold's predictions and
  attributions to the two lists.
\<close>

fun load_outputs ::
  "'s filesystem \<Rightarrow> path \<Rightarrow> string \<Rightarrow> string \<Rightarrow> int list \<Rightarrow>
   real list list list \<Rightarrow> 's list list \<Rightarrow> (real list list list \<times> 's list list) io" where
  "load_outputs fs input_root model attribution_type [] y_pred R = io_pure (Inr (y_pred, R))"
| "load_outputs fs input_root model attribution_type (f # rest) y_pred R =
     io_bind (io_loadmat fs (outputs_path input_root model f)) (\<lambda>model_outputs.
     io_bind (io_pure (mat_get (var_y_pred model_outputs) ''y_pred'')) (\<lambda>yp.
     io_bind (io_pure (get_R_pred model_outputs attribution_type)) (\<lambda>r.
       load_outputs fs input_root model attribution_type rest (y_pred @ [yp]) (R @ [r]))))"

text \<open>The arrays of lines 84 to 110, before they are split into groups.\<close>

record 's prepared =
  p_y :: "int list"
  p_R :: "'s list"
  p_y_pred :: "real list list"
  p_true_injury_sublabels :: "real list list"
  p_true_health_labels :: "real list list"
  p_true_subject_labels :: "real list list"
  p_split_indices :: "int list"
  p_inputs :: "'s list"
  p_relevances :: "'s list"

text \<open>Lines 105 to 110: the grouping label vector.\<close>

definition grouping_labels ::
  "string \<Rightarrow> real list list \<Rightarrow> 's matfile \<Rightarrow> int list \<Rightarrow> error + int list" where
  "grouping_labels analysis_groups y_pred targets_health split_indices =
     (if analysis_groups = ''as_predicted'' then np_argmax_axis1 y_pred
      else if analysis_groups = ''ground_truth'' then
        and_then (mat_get (var_Y targets_health) ''Y'') (\<lambda>Y.
        and_then (np_take Y split_indices) np_argmax_axis1)
      else Inr (replicate (length y_pred) 0))"

text \<open>Lines 71 to 110, after the assertions.\<close>

definition prepare_data ::
  "'s filesystem \<Rightarrow> path \<Rightarrow> string \<Rightarrow> string \<Rightarrow> string \<Rightarrow> string \<Rightarrow> string \<Rightarrow> 's prepared io" where
  "prepare_data fs input_root model foldsel analysis_data attribution_type analysis_groups =
     io_bind (io_loadmat fs (input_root @ ''/targets.mat'')) (\<lambda>targets_health.
     io_bind (io_loadmat fs (input_root @ ''/targets_injurytypes.mat'')) (\<lambda>targets_injurytypes.
     io_bind (io_loadmat fs (input_root @ ''/subject_labels.mat'')) (\<lambda>targets_subject.
     io_bind (io_loadmat fs (input_root @ ''/data.mat'')) (\<lambda>input_data.
     io_bind (io_loadmat fs (input_root @ ''/permutation.mat'')) (\<lambda>permutation.
     io_bind (io_loadmat fs (input_root @ ''/splits.mat'')) (\<lambda>splits.
     io_bind (io_pure (resolve_fold foldsel)) (\<lambda>folds.
     io_bind (io_pure (and_then (mat_get (var_S splits) ''S'') (\<lambda>S.
                and_then (comprehension (fold_indices S) folds) np_concatenate))) (\<lambda>split_indices.
     io_bind (load_outputs fs input_root model attribution_type folds [] []) (\<lambda>(y_pred_parts, R_parts).
     io_bind (io_pure (np_concatenate y_pred_parts)) (\<lambda>y_pred.
     io_bind (io_pure (np_concatenate R_parts)) (\<lambda>R.
     io_bind (io_pure (and_then (mat_get (var_Y targets_injurytypes) ''Y'') (\<lambda>Y.
                np_take Y split_indices))) (\<lambda>true_injury_sublabels.
     io_bind (io_pure (and_then (mat_get (var_Y targets_health) ''Y'') (\<lambda>Y.
                np_take Y split_indices))) (\<lambda>true_health_labels.
     io_bind (io_pure (and_then (mat_get (var_LS targets_subject) ''LS'') (\<lambda>LS.
                and_then (mat_get (var_P permutation) ''P'') (\<lambda>P.
                and_then (np_at P 0) (\<lambda>P0.
                and_then (np_take LS P0) (\<lambda>permuted. np_take permuted split_indices)))))) (\<lambda>true_subject_labels.
     io_bind (io_pure (and_then (mat_get (var_X input_data) ''X'') (\<lambda>X.
                np_take X split_indices))) (\<lambda>inputs.
     io_bind (io_pure (grouping_labels analysis_groups y_pred targets_health
                         split_indices)) (\<lambda>y.
     io_pure (Inr \<lparr> p_y = y,
                    p_R = (if analysis_data = ''inputs'' then inputs else R),
                    p_y_pred = y_pred,
                    p_true_injury_sublabels = true_injury_sublabels,
                    p_true_health_labels = true_health_labels,
                    p_true_subject_labels = true_subject_labels,
                    p_split_indices = split_indices,
                    p_inputs = inputs,
                    p_relevances = R \<rparr>)))))))))))))))))"

text \<open>Lines 115 to 124: the dictionary of one group, every array cut by \<^verbatim>\<open>y == cls\<close>.\<close>

definition make_group :: "'s prepared \<Rightarrow> int \<Rightarrow> error + 's evaluation_group" where
  "make_group d c =
     (let sel = map (\<lambda>v. v = c) (p_y d) in
      and_then (np_mask (p_y d) sel) (\<lambda>gy.
      and_then (np_mask (p_R d) sel) (\<lambda>gR.
      and_then (np_mask (p_true_injury_sublabels d) sel) (\<lambda>ginj.
      and_then (np_mask (p_true_health_labels d) sel) (\<lambda>ghealth.
      and_then (np_mask (p_true_subject_labels d) sel) (\<lambda>gsubj.
      and_then (np_mask (p_split_indices d) sel) (\<lambda>gidx.
      and_then (np_mask (p_inputs d) sel) (\<lambda>ginp.
      and_then (np_mask (p_relevances d) sel) (\<lambda>grel.
        Inr \<lparr> grp_cls = c, grp_y = gy, grp_R = gR, grp_y_injury_type = ginj,
              grp_y_health_type = ghealth, grp_y_subject = gsubj, grp_split_indices = gidx,
              grp_inputs = ginp, grp_relevances = grel \<rparr>)))))))))"

text \<open>Lines 113 to 125: one group per value of \<^verbatim>\<open>np.unique(y)\<close>, appended in that order.\<close>

fun group_loop ::
  "'s prepared \<Rightarrow> int list \<Rightarrow> 's evaluation_group list \<Rightarrow> error + 's evaluation_group list" where
  "group_loop d [] evaluation_groups = Inr evaluation_groups"
| "group_loop d (c # cs) evaluation_groups =
     and_then (make_group d c) (\<lambda>g. group_loop d cs (evaluation_groups @ [g]))"

definition load_analysis_data ::
  "'s filesystem \<Rightarrow> path \<Rightarrow> string \<Rightarrow> string \<Rightarrow> string \<Rightarrow> string \<Rightarrow> string \<Rightarrow>
   's evaluation_group list io" where
  "load_analysis_data fs input_root model foldsel analysis_data attribution_type analysis_groups =
     io_bind (io_pure (validate_selectors fs input_root model foldsel analysis_data
                         attribution_type analysis_groups)) (\<lambda>_.
     io_bind (prepare_data fs input_root model foldsel analysis_data attribution_type
                analysis_groups) (\<lambda>d.
     io_pure (group_loop d (np_unique (p_y d)) [])))"

section \<open>The run configuration and the output folder name\<close>

text \<open>
  The namespace \<^verbatim>\<open>argparse\<close> returns. The perplexity is a float; the script only
  formats it and hands it to t-SNE, so the field holds the text \<^verbatim>\<open>str\<close> gives for it.
\<close>

record ARGS =
  arg_random_seed :: string
  arg_analysis_groups :: string
  arg_group_index :: string
  arg_analysis_data :: string
  arg_attribution_type :: string
  arg_input_root :: string
  arg_model :: string
  arg_fold :: string
  arg_min_clusters :: int
  arg_max_clusters :: int
  arg_neighbors_affinity :: int
  arg_number_eigen :: int
  arg_tsne_perplexity :: string
  arg_cmap_injury :: string
  arg_cmap_subject :: string
  arg_cmap_clustering :: string
  arg_output :: string
  arg_show :: bool
  arg_save_results :: bool

text \<open>\<^verbatim>\<open>'{}'.format(getattr(ARGS, k))\<close>; an unknown attribute raises.\<close>

definition format_attr :: "ARGS \<Rightarrow> string \<Rightarrow> error + string" where
  "format_attr A k =
     (if k = ''random_seed'' then Inr (arg_random_seed A)
      else if k = ''analysis_groups'' then Inr (arg_analysis_groups A)
      else if k = ''group_index'' then Inr (arg_group_index A)
      else if k = ''analysis_data'' then Inr (arg_analysis_data A)
      else if k = ''attribution_type'' then Inr (arg_attribution_type A)
      else if k = ''input_root'' then Inr (arg_input_root A)
      else if k = ''model'' then Inr (arg_model A)
      else if k = ''fold'' then Inr (arg_fold A)
      else if k = ''min_clusters'' then Inr (str_int (arg_min_clusters A))
      else if k = ''max_clusters'' then Inr (str_int (arg_max_clusters A))
      else if k = ''neighbors_affinity'' then Inr (str_int (arg_neighbors_affinity A))
      else if k = ''number_eigen'' then Inr (str_int (arg_number_eigen A))
      else if k = ''tsne_perplexity'' then Inr (arg_tsne_perplexity A)
      else if k = ''cmap_injury'' then Inr (arg_cmap_injury A)
      else if k = ''cmap_subject'' then Inr (arg_cmap_subject A)
      else if k = ''cmap_clustering'' then Inr (arg_cmap_clustering A)
      else if k = ''output'' then Inr (arg_output A)
      else if k = ''show'' then Inr (str_bool (arg_show A))
      else if k = ''save_results'' then Inr (str_bool (arg_save_results A))
      else Inl (AttributeError k))"

text \<open>
  \<^verbatim>\<open>natsorted\<close> orders strings naturally: runs of digits compare as numbers, everything
  else character by character. No key of the script holds a digit, where this is the
  ordinary order on strings.
\<close>

definition natsorted :: "string list \<Rightarrow> string list" where
  "natsorted ks = sort ks"

definition relevant_keys :: "string list" where
  "relevant_keys =
     [''random_seed'', ''analysis_data'', ''analysis_groups'', ''group_index'',
      ''attribution_type'', ''model'', ''fold'', ''min_clusters'', ''max_clusters'',
      ''neighbors_affinity'', ''tsne_perplexity'', ''cmap_injury'', ''cmap_subject'',
      ''cmap_clustering'']"

definition args_to_stuff :: "ARGS \<Rightarrow> error + (string \<times> string)" where
  "args_to_stuff A =
     (let keys = natsorted relevant_keys in
      and_then (comprehension (format_attr A) keys) (\<lambda>vals.
      and_then (comprehension (\<lambda>k. and_then (format_attr A k) (\<lambda>v. Inr (''--'' @ k @ '' '' @ v)))
                  keys) (\<lambda>opts.
        Inr (join ''-'' vals, join ''  '' opts))))"

section \<open>Colours for the subject labels\<close>

text \<open>\<^verbatim>\<open>dict(pairs)\<close>: a later pair replaces an earlier one with the same key.\<close>

definition py_dict :: "('k \<times> 'v) list \<Rightarrow> 'k \<Rightarrow> 'v option" where
  "py_dict pairs = map_of (rev pairs)"

definition cmap_limits :: "string \<Rightarrow> nat option" where
  "cmap_limits =
     py_dict [(''Pastel1'', 9), (''Pastel2'', 8), (''Paired'', 12), (''Accent'', 8),
              (''Dark2'', 8), (''Set1'', 9), (''Set2'', 8), (''Set3'', 12), (''tab10'', 10),
              (''tab20'', 20), (''tab20b'', 20), (''tab20c'', 20)]"

text \<open>Lines 165 to 168: every label replaced by its rank among the distinct labels.\<close>

definition enum_labels :: "int list \<Rightarrow> error + nat list" where
  "enum_labels labels =
     (let unique_labels = np_unique labels;
          enum_map = py_dict (map (\<lambda>(i, l). (l, i)) (enumerate 0 (sort unique_labels)))
      in comprehension
           (\<lambda>l. case enum_map l of None \<Rightarrow> Inl (KeyError (str_int l)) | Some i \<Rightarrow> Inr i) labels)"

definition cmap_warning :: "nat \<Rightarrow> string \<Rightarrow> nat \<Rightarrow> string" where
  "cmap_warning n cmap limit =
     ''WARNING! You are trying to map '' @ str_nat n
       @ '' unique labels using the qualitative color map '' @ cmap
       @ '', which only has '' @ str_nat limit
       @ '' unique values. Picking another color map is advised.''"

text \<open>
  \<^verbatim>\<open>custom_subject_cmap\<close>. \<open>get_cmap\<close> stands for \<^verbatim>\<open>matplotlib.cm.get_cmap\<close>: the
  colour map of a name, a function from a number to an RGBA list, or nothing for a name
  matplotlib does not know (a \<open>ValueError\<close>). The result is the colours, or the
  exception, together with the lines printed (the warning, without its colour codes).
\<close>

definition custom_subject_cmap ::
  "(string \<Rightarrow> (real \<Rightarrow> real list) option) \<Rightarrow> int list \<Rightarrow> string \<Rightarrow>
   (error + real list list) \<times> string list" where
  "custom_subject_cmap get_cmap labels cmap =
     (let unique_size = length (np_unique labels) in
      case enum_labels labels of
        Inl e \<Rightarrow> (Inl e, [])
      | Inr el \<Rightarrow>
          (let printed =
                 (case cmap_limits cmap of
                    None \<Rightarrow> []
                  | Some limit \<Rightarrow>
                      if limit < unique_size then [cmap_warning unique_size cmap limit] else [])
           in case get_cmap cmap of
                None \<Rightarrow> (Inl ValueError, printed)
              | Some colour \<Rightarrow>
                  (Inr (map (\<lambda>i. take 3 (colour (real i / real unique_size))) el), printed)))"

section \<open>The preprocessors of the pipeline\<close>

text \<open>
  The preprocessors work on arrays of any number of dimensions: an array is its shape
  and its elements in row-major order.
\<close>

record ndarray =
  nd_shape :: "nat list"
  nd_data :: "real list"

text \<open>
  \<^verbatim>\<open>data / data.sum(keepdims=True)\<close>: the sum runs over all axes, and every element
  is divided by it. With a sum of 0 numpy returns an array of nan and infinities, which
  the reals do not have: \<open>None\<close>.
\<close>

definition Normalize :: "ndarray \<Rightarrow> ndarray option" where
  "Normalize a =
     (let total = sum_list (nd_data a) in
      if total = 0 then None
      else Some (a\<lparr>nd_data := map (\<lambda>x. x / total) (nd_data a)\<rparr>))"

text \<open>
  \<^verbatim>\<open>data.reshape(data.shape[0], np.prod(data.shape[1:]))\<close>. For a one-dimensional
  array \<^verbatim>\<open>np.prod(())\<close> is the float 1.0, which \<^verbatim>\<open>reshape\<close> refuses.
\<close>

definition Flatten :: "ndarray \<Rightarrow> error + ndarray" where
  "Flatten a =
     (case nd_shape a of
        [] \<Rightarrow> Inl IndexError
      | [n] \<Rightarrow> Inl TypeError
      | n # rest \<Rightarrow> Inr (a\<lparr>nd_shape := [n, prod_list rest]\<rparr>))"

text \<open>\<^verbatim>\<open>Sequential([Normalize(), Flatten()])\<close>.\<close>

definition preprocessing :: "ndarray \<Rightarrow> (error + ndarray) option" where
  "preprocessing a = map_option Flatten (Normalize a)"

text \<open>
  What the specification asks of the normalisation, in its words: each row (the feature
  vector of one sample) divided by its own sum. Stated for rows with a non-zero sum.
\<close>

definition sample_row :: "ndarray \<Rightarrow> nat \<Rightarrow> real list" where
  "sample_row a i =
     (let m = prod_list (tl (nd_shape a)) in take m (drop (i * m) (nd_data a)))"

definition spec_rowwise_normalize :: "ndarray \<Rightarrow> ndarray" where
  "spec_rowwise_normalize a =
     a\<lparr>nd_data :=
         concat (map (\<lambda>i. map (\<lambda>x. x / sum_list (sample_row a i)) (sample_row a i))
                   [0 ..< hd (nd_shape a)])\<rparr>"

section \<open>The loop over the groups\<close>

text \<open>
  Line 256, \<^verbatim>\<open>tsne_embedding -= np.mean(tsne_embedding, axis=0)\<close>. The embedding is the
  list of its rows, one per sample. The mean of no rows is nan in numpy, and subtracting
  it from no rows leaves no rows.
\<close>

definition column :: "real list list \<Rightarrow> nat \<Rightarrow> real list" where
  "column m j = map (\<lambda>row. row ! j) m"

definition np_mean_axis0 :: "real list list \<Rightarrow> real list" where
  "np_mean_axis0 m =
     map (\<lambda>j. sum_list (column m j) / real (length m)) [0 ..< length (hd m)]"

definition center :: "real list list \<Rightarrow> real list list" where
  "center emb =
     (if emb = [] then []
      else let mean = np_mean_axis0 emb in map (\<lambda>row. map2 (-) row mean) emb)"

text \<open>\<^verbatim>\<open>os.makedirs(p)\<close>; parent directories are not tracked.\<close>

definition makedirs :: "'s filesystem \<Rightarrow> path \<Rightarrow> error + 's filesystem" where
  "makedirs fs p = (if fs p = None then Inr (fs(p \<mapsto> Dir)) else Inl (FileExistsError p))"

text \<open>Writing a file (a figure, the arguments, an array); its content is not tracked.\<close>

definition write_files :: "'s filesystem \<Rightarrow> path list \<Rightarrow> 's filesystem" where
  "write_files fs ps = foldl (\<lambda>fs' p. fs'(p \<mapsto> OtherFile)) fs ps"

definition saved_paths :: "path \<Rightarrow> int \<Rightarrow> path list" where
  "saved_paths output_dir c =
     [output_dir @ ''/cls-'' @ str_int c @ ''.svg'',
      output_dir @ ''/cls-'' @ str_int c @ ''.pdf'',
      output_dir @ ''/callparams.args'',
      output_dir @ ''/emb-'' @ str_int c @ ''.npy'',
      output_dir @ ''/clust-'' @ str_int c @ ''.npy'',
      output_dir @ ''/idx-'' @ str_int c @ ''.npy'',
      output_dir @ ''/adata-'' @ str_int c @ ''.npy'',
      output_dir @ ''/inputs-'' @ str_int c @ ''.npy'',
      output_dir @ ''/relevances-'' @ str_int c @ ''.npy'']"

text \<open>
  Lines 313 to 333 for the group with label \<open>c\<close>: the new file system, or the exception,
  together with the lines printed.
\<close>

definition save_group ::
  "ARGS \<Rightarrow> 's filesystem \<Rightarrow> int \<Rightarrow> (error + 's filesystem) \<times> string list" where
  "save_group A fs c =
     (if \<not> arg_save_results A then (Inr fs, [])
      else if isfile fs (arg_output A) then
        (Inr fs, [''Can not save results in \"'' @ arg_output A
                    @ ''\", exists as FILE already!''])
      else
        case args_to_stuff A of
          Inl e \<Rightarrow> (Inl e, [])
        | Inr (foldername, args_string) \<Rightarrow>
            (let output_dir = arg_output A @ ''/'' @ foldername in
             case (if \<not> isdir fs output_dir then makedirs fs output_dir else Inr fs) of
               Inl e \<Rightarrow> (Inl e, [])
             | Inr fs1 \<Rightarrow>
                 (Inr (write_files fs1 (saved_paths output_dir c)),
                  [''    saving figure, args and clusterings/embedding in '' @ output_dir])))"

text \<open>
  Lines 217 to 333. \<open>pipeline\<close> stands for the corelay pipeline built from the arguments
  and run on the group's data (lines 230 to 253): it returns the clusterings and the
  t-SNE embedding, or raises. \<open>draw\<close> stands for the drawing of the figure (lines 262 to
  310). An exception of either ends the run. The lines printed are those of the
  script itself outside these two stages, but for the report of the running time.
\<close>

fun main_loop ::
  "(ARGS \<Rightarrow> 's list \<Rightarrow> error + (int list list \<times> real list list)) \<Rightarrow>
   (ARGS \<Rightarrow> 's evaluation_group \<Rightarrow> int list list \<Rightarrow> real list list \<Rightarrow> error + unit) \<Rightarrow>
   ARGS \<Rightarrow> 's evaluation_group list \<Rightarrow> 's filesystem \<Rightarrow> string list \<Rightarrow>
   (error + 's filesystem) \<times> string list" where
  "main_loop pipeline draw A [] fs printed = (Inr fs, printed)"
| "main_loop pipeline draw A (e # es) fs printed =
     (if arg_group_index A \<notin> set [''all'', str_int (grp_cls e)] then
        main_loop pipeline draw A es fs
          (printed @ [''    skipping group/class '' @ str_int (grp_cls e)
                        @ '' analysis as per --group_index specification''])
      else
        let printed1 = printed @
              [''    process \"'' @ arg_attribution_type A @ ''\" relevance for class ''
                 @ str_int (grp_cls e) @ '' ('' @ arg_analysis_groups A @ '') as per ''
                 @ arg_model A]
        in case pipeline A (grp_R e) of
             Inl err \<Rightarrow> (Inl err, printed1)
           | Inr (clusterings, tsne_embedding) \<Rightarrow>
               (case draw A e clusterings (center tsne_embedding) of
                  Inl err \<Rightarrow> (Inl err, printed1)
                | Inr _ \<Rightarrow>
                    (case save_group A fs (grp_cls e) of
                       (Inl err, msgs) \<Rightarrow> (Inl err, printed1 @ msgs)
                     | (Inr fs', msgs) \<Rightarrow>
                         main_loop pipeline draw A es fs' (printed1 @ msgs))))"

section \<open>Concrete inputs\<close>

text \<open>The defaults of the command line (lines 187 to 205).\<close>

definition default_ARGS :: ARGS where
  "default_ARGS =
     \<lparr> arg_random_seed = ''0xDEADBEEF'',
       arg_analysis_groups = ''ground_truth'',
       arg_group_index = ''all'',
       arg_analysis_data = ''relevance'',
       arg_attribution_type = ''act'',
       arg_input_root = ''./data_metaanalysis/2019_frontiers_small_dataset_v3_aff-unaff-atMM_1-234_'',
       arg_model = ''Cnn1DC8'',
       arg_fold = ''0'',
       arg_min_clusters = 3,
       arg_max_clusters = 8,
       arg_neighbors_affinity = 3,
       arg_number_eigen = 8,
       arg_tsne_perplexity = ''30.0'',
       arg_cmap_injury = ''custom'',
       arg_cmap_subject = ''viridis'',
       arg_cmap_clustering = ''Set2'',
       arg_output = ''./output_metaanalysis/2019_frontiers_small_dataset_v3_aff-unaff-atMM_1-234_'',
       arg_show = False,
       arg_save_results = False \<rparr>"


text \<open>
  A small project folder: four samples in two folds (fold 0 holds the samples 0 and 1,
  fold 1 the samples 2 and 3), with the outputs of the model Cnn1DC8 for both folds.
  A sample is its list of features.
\<close>

definition no_vars :: "'s matfile" where
  "no_vars = \<lparr> var_Y = None, var_LS = None, var_X = None, var_P = None, var_S = None,
               var_y_pred = None, var_R_pred_dom_epsilon = None,
               var_R_pred_act_epsilon = None \<rparr>"

definition example_fs :: "real list filesystem" where
  "example_fs =
     [''proj'' \<mapsto> Dir,
      ''proj/targets.mat'' \<mapsto> MatFile (no_vars\<lparr>var_Y := Some [[1, 0], [0, 1], [1, 0], [0, 1]]\<rparr>),
      ''proj/targets_injurytypes.mat'' \<mapsto>
         MatFile (no_vars\<lparr>var_Y := Some [[1, 0, 0], [0, 1, 0], [1, 0, 0], [0, 0, 1]]\<rparr>),
      ''proj/subject_labels.mat'' \<mapsto>
         MatFile (no_vars\<lparr>var_LS := Some [[1, 0], [1, 0], [0, 1], [0, 1]]\<rparr>),
      ''proj/data.mat'' \<mapsto> MatFile (no_vars\<lparr>var_X := Some [[1, 2], [3, 4], [5, 6], [7, 8]]\<rparr>),
      ''proj/permutation.mat'' \<mapsto> MatFile (no_vars\<lparr>var_P := Some [[0, 1, 2, 3]]\<rparr>),
      ''proj/splits.mat'' \<mapsto> MatFile (no_vars\<lparr>var_S := Some [[[[0, 1]], [[2, 3]]]]\<rparr>),
      ''proj/Injury/GRF_AV/Cnn1DC8/part-0/outputs.mat'' \<mapsto>
         MatFile (no_vars\<lparr>var_y_pred := Some [[2, 1], [1, 3]],
                          var_R_pred_dom_epsilon := Some [[1, -1], [0, 2]],
                          var_R_pred_act_epsilon := Some [[1, -1], [2, 0]]\<rparr>),
      ''proj/Injury/GRF_AV/Cnn1DC8/part-1/outputs.mat'' \<mapsto>
         MatFile (no_vars\<lparr>var_y_pred := Some [[5, 1], [4, 3]],
                          var_R_pred_dom_epsilon := Some [[3, 3], [1, 1]],
                          var_R_pred_act_epsilon := Some [[3, 3], [1, 1]]\<rparr>)]"

text \<open>A project folder whose only fold holds no sample.\<close>

definition empty_fold_fs :: "real list filesystem" where
  "empty_fold_fs =
     [''proj'' \<mapsto> Dir,
      ''proj/targets.mat'' \<mapsto> MatFile (no_vars\<lparr>var_Y := Some []\<rparr>),
      ''proj/targets_injurytypes.mat'' \<mapsto> MatFile (no_vars\<lparr>var_Y := Some []\<rparr>),
      ''proj/subject_labels.mat'' \<mapsto> MatFile (no_vars\<lparr>var_LS := Some []\<rparr>),
      ''proj/data.mat'' \<mapsto> MatFile (no_vars\<lparr>var_X := Some []\<rparr>),
      ''proj/permutation.mat'' \<mapsto> MatFile (no_vars\<lparr>var_P := Some [[]]\<rparr>),
      ''proj/splits.mat'' \<mapsto> MatFile (no_vars\<lparr>var_S := Some [[[[]]]]\<rparr>),
      ''proj/Injury/GRF_AV/Cnn1DC8/part-0/outputs.mat'' \<mapsto>
         MatFile (no_vars\<lparr>var_y_pred := Some [],
                          var_R_pred_dom_epsilon := Some [],
                          var_R_pred_act_epsilon := Some []\<rparr>)]"

text \<open>The two groups of fold 0 of that folder under the ground-truth policy.\<close>

definition example_groups :: "real list evaluation_group list" where
  "example_groups =
     [\<lparr>grp_cls = 0, grp_y = [0], grp_R = [[1, - 1]],
       grp_y_injury_type = [[1, 0, 0]], grp_y_health_type = [[1, 0]],
       grp_y_subject = [[1, 0]], grp_split_indices = [0],
       grp_inputs = [[1, 2]], grp_relevances = [[1, - 1]]\<rparr>,
      \<lparr>grp_cls = 1, grp_y = [1], grp_R = [[2, 0]],
       grp_y_injury_type = [[0, 1, 0]], grp_y_health_type = [[0, 1]],
       grp_y_subject = [[1, 0]], grp_split_indices = [1],
       grp_inputs = [[3, 4]], grp_relevances = [[2, 0]]\<rparr>]"

section \<open>Basic facts\<close>

lemma and_then_Inr [simp]: "and_then (Inr v) f = f v"
  by (simp add: and_then_def)

lemma and_then_Inl [simp]: "and_then (Inl e) f = Inl e"
  by (simp add: and_then_def)

lemma comprehension_map:
  "(\<And>x. x \<in> set xs \<Longrightarrow> f x = Inr (g x)) \<Longrightarrow> comprehension f xs = Inr (map g xs)"
  by (induction xs) simp_all

lemma py_dict_distinct:
  assumes "distinct (map fst ps)"
  shows "py_dict ps = map_of ps"
proof -
  have "distinct (map fst (rev ps))"
    using assms by (simp add: rev_map [symmetric])
  moreover have "set (rev ps) = set ps" by simp
  ultimately show ?thesis
    unfolding py_dict_def using assms map_of_inject_set by blast
qed

lemma np_unique_props:
  "sorted (np_unique ys)" "distinct (np_unique ys)" "set (np_unique ys) = set ys"
  "length (np_unique ys) = card (set ys)"
  by (simp_all add: np_unique_def length_remdups_card_conv)

lemma and_then_eq_Inr: "and_then r f = Inr y \<longleftrightarrow> (\<exists>v. r = Inr v \<and> f v = Inr y)"
  by (cases r) simp_all

lemma io_pure_eq: "io_pure r s = (r', s') \<longleftrightarrow> r = r' \<and> s' = s"
  by (auto simp: io_pure_def)

lemma io_loadmat_eq: "io_loadmat fs p s = (r, s') \<longleftrightarrow> loadmat fs p = r \<and> s' = s @ [p]"
  by (auto simp: io_loadmat_def)

lemma io_bind_eq_Inr:
  "io_bind m f s = (Inr y, s') \<longleftrightarrow> (\<exists>v s1. m s = (Inr v, s1) \<and> f v s1 = (Inr y, s'))"
  by (auto simp: io_bind_def split: prod.splits sum.splits)

lemma io_bind_Inl: "m s = (Inl e, s1) \<Longrightarrow> io_bind m f s = (Inl e, s1)"
  by (simp add: io_bind_def)

lemma io_bind_Inr: "m s = (Inr v, s1) \<Longrightarrow> io_bind m f s = f v s1"
  by (simp add: io_bind_def)


lemma comprehension_eq_Inr:
  "comprehension f xs = Inr ys \<longleftrightarrow> list_all2 (\<lambda>x y. f x = Inr y) xs ys"
proof (induction xs arbitrary: ys)
  case Nil
  then show ?case by auto
next
  case (Cons x xs)
  show ?case
    by (cases ys) (auto simp: and_then_eq_Inr Cons.IH)
qed


section \<open>Properties of the output folder name\<close>






section \<open>Properties of the subject colours\<close>

lemma enum_map_lookup:
  assumes "distinct u" "k < length u"
  shows "py_dict (map (\<lambda>(i, l). (l, i)) (enumerate 0 u)) (u ! k) = Some k"
proof -
  have eq: "map (\<lambda>(i, l). (l, i)) (enumerate 0 u) = zip u [0 ..< length u]"
    by (simp add: enumerate_eq_zip zip_commute [of u])
  have "py_dict (zip u [0 ..< length u]) = map_of (zip u [0 ..< length u])"
    using assms by (intro py_dict_distinct) simp
  moreover have "map_of (zip u [0 ..< length u]) (u ! k) = Some ([0 ..< length u] ! k)"
    using assms by (intro map_of_zip_nth) simp_all
  ultimately show ?thesis using assms eq by simp
qed

lemma enum_labels_ranks:
  "\<exists>el. enum_labels labels = Inr el \<and> length el = length labels
     \<and> (\<forall>k < length labels.
          el ! k < length (np_unique labels) \<and> np_unique labels ! (el ! k) = labels ! k)"
proof -
  let ?u = "np_unique labels"
  define rank where "rank = (\<lambda>l. THE k. k < length ?u \<and> ?u ! k = l)"
  have su: "sort ?u = ?u" by (simp add: sorted_sort_id np_unique_props)
  have rank_nth: "rank (?u ! k) = k" if "k < length ?u" for k
    unfolding rank_def using that np_unique_props(2) [of labels]
    by (intro the_equality) (auto simp: nth_eq_iff_index_eq)
  have rank: "rank l < length ?u \<and> ?u ! rank l = l" if "l \<in> set labels" for l
  proof -
    from that have "l \<in> set ?u" by (simp add: np_unique_props)
    then obtain k where k: "k < length ?u" "?u ! k = l" by (auto simp: in_set_conv_nth)
    with rank_nth [of k] show ?thesis by simp
  qed
  have "py_dict (map (\<lambda>(i, l). (l, i)) (enumerate 0 ?u)) l = Some (rank l)"
    if "l \<in> set labels" for l
    using enum_map_lookup [of ?u "rank l"] rank [OF that] by (simp add: np_unique_props)
  then have "enum_labels labels = Inr (map rank labels)"
    unfolding enum_labels_def Let_def su
    by (intro comprehension_map) simp
  moreover have "\<forall>k < length labels.
      map rank labels ! k < length ?u \<and> ?u ! (map rank labels ! k) = labels ! k"
    using rank by simp
  ultimately show ?thesis by (intro exI [of _ "map rank labels"]) simp
qed

lemma cmap_limits_Set2: "cmap_limits ''Set2'' = Some 8"
  by (simp add: cmap_limits_def py_dict_def)

text \<open>
  Claim C9. \<^verbatim>\<open>custom_subject_cmap\<close> never fails to enumerate: every label gets an index
  below the number of distinct labels, namely its rank among the distinct labels in
  ascending order; two labels are equal exactly when their indices are; every index
  below the number of distinct labels is used; and when the colour map is one of the
  qualitative maps of \<^verbatim>\<open>cmap_limits\<close> and there are more distinct labels than its limit,
  the warning is printed.
\<close>

theorem custom_subject_cmap_enumerates:
  "\<exists>el. enum_labels labels = Inr el
     \<and> length el = length labels
     \<and> (\<forall>k < length labels.
          el ! k < card (set labels) \<and> np_unique labels ! (el ! k) = labels ! k)
     \<and> (\<forall>j < length labels. \<forall>k < length labels.
          (labels ! j = labels ! k) = (el ! j = el ! k))
     \<and> set el = {0 ..< card (set labels)}
     \<and> (\<forall>limit. cmap_limits cmap = Some limit \<and> limit < card (set labels) \<longrightarrow>
          snd (custom_subject_cmap get_cmap labels cmap)
            = [cmap_warning (card (set labels)) cmap limit])"
proof -
  let ?u = "np_unique labels"
  have n: "length ?u = card (set labels)" by (simp add: np_unique_props)
  obtain el where v: "enum_labels labels = Inr el" and len: "length el = length labels"
    and r: "\<forall>k < length labels. el ! k < length ?u \<and> ?u ! (el ! k) = labels ! k"
    using enum_labels_ranks [of labels] by blast
  have d: "distinct ?u" by (simp add: np_unique_props)
  have e: "\<forall>j < length labels. \<forall>k < length labels.
      (labels ! j = labels ! k) = (el ! j = el ! k)"
  proof (intro allI impI)
    fix j k assume jk: "j < length labels" "k < length labels"
    show "(labels ! j = labels ! k) = (el ! j = el ! k)"
    proof
      assume "labels ! j = labels ! k"
      then have "?u ! (el ! j) = ?u ! (el ! k)" using r jk by simp
      moreover have "el ! j < length ?u" "el ! k < length ?u" using r jk by simp_all
      ultimately show "el ! j = el ! k" using d nth_eq_iff_index_eq by blast
    next
      assume "el ! j = el ! k"
      then show "labels ! j = labels ! k" using r jk by metis
    qed
  qed
  have s: "set el = {0 ..< card (set labels)}"
  proof (intro equalityI subsetI)
    fix i assume "i \<in> set el"
    then obtain k where "k < length labels" "el ! k = i"
      using len by (auto simp: in_set_conv_nth)
    then show "i \<in> {0 ..< card (set labels)}" using r n by auto
  next
    fix i assume "i \<in> {0 ..< card (set labels)}"
    then have i: "i < length ?u" using n by simp
    then have "?u ! i \<in> set labels" using np_unique_props(3) [of labels] nth_mem by blast
    then obtain k where k: "k < length labels" "labels ! k = ?u ! i"
      by (auto simp: in_set_conv_nth)
    then have "?u ! (el ! k) = ?u ! i" "el ! k < length ?u" using r by simp_all
    then have "el ! k = i" using d i nth_eq_iff_index_eq by blast
    then show "i \<in> set el" using k len by (metis nth_mem)
  qed
  have w: "\<forall>limit. cmap_limits cmap = Some limit \<and> limit < card (set labels) \<longrightarrow>
      snd (custom_subject_cmap get_cmap labels cmap) = [cmap_warning (card (set labels)) cmap limit]"
    by (simp add: custom_subject_cmap_def Let_def v n split: option.splits)
  from v len r e s w n show ?thesis by (intro exI [of _ el]) simp
qed

theorem custom_subject_cmap_enumerates_witness:
  "\<exists>el. enum_labels [7, 3, 7, 5, 3, 11, 2, 4, 6, 8, 9, 7] = Inr el
     \<and> set el = {0 ..< 9}
     \<and> snd (custom_subject_cmap (\<lambda>n. Some (\<lambda>x. [x, x, x, 1])) [7, 3, 7, 5, 3, 11, 2, 4, 6, 8, 9, 7] ''Set2'')
         = [cmap_warning 9 ''Set2'' 8]"
proof -
  have c: "card (set [7, 3, 7, 5, 3, 11, 2, 4, 6, 8, 9, 7 :: int]) = 9"
    unfolding length_remdups_card_conv [symmetric] by simp
  show ?thesis
    using custom_subject_cmap_enumerates
      [of "[7, 3, 7, 5, 3, 11, 2, 4, 6, 8, 9, 7]" "''Set2''" "\<lambda>n. Some (\<lambda>x. [x, x, x, 1])"]
    unfolding c by (auto simp: cmap_limits_Set2)
qed


section \<open>Properties of the preprocessors\<close>

lemma Normalize_elements:
  assumes "sum_list (nd_data a) \<noteq> 0"
  shows "\<exists>b. Normalize a = Some b \<and> nd_shape b = nd_shape a
           \<and> nd_data b = map (\<lambda>x. x / sum_list (nd_data a)) (nd_data a)"
  using assms by (simp add: Normalize_def Let_def)

text \<open>
  Claim C1. The specification asks for each row to be divided by its own sum. On the
  batch of two samples \<open>[1, 1]\<close> and \<open>[2, 2]\<close> the code divides all four numbers by 6,
  the sum of the whole batch, where the row-wise normalisation gives \<open>1/2\<close> everywhere;
  the flattening leaves the two-dimensional batch as it is.
\<close>

theorem Normalize_divides_by_batch_sum:
  "Normalize \<lparr>nd_shape = [2, 2], nd_data = [1, 1, 2, 2]\<rparr>
     = Some \<lparr>nd_shape = [2, 2], nd_data = [1 / 6, 1 / 6, 1 / 3, 1 / 3]\<rparr>
   \<and> preprocessing \<lparr>nd_shape = [2, 2], nd_data = [1, 1, 2, 2]\<rparr>
     = Some (Inr \<lparr>nd_shape = [2, 2], nd_data = [1 / 6, 1 / 6, 1 / 3, 1 / 3]\<rparr>)
   \<and> spec_rowwise_normalize \<lparr>nd_shape = [2, 2], nd_data = [1, 1, 2, 2]\<rparr>
     = \<lparr>nd_shape = [2, 2], nd_data = [1 / 2, 1 / 2, 1 / 2, 1 / 2]\<rparr>"
  by (simp add: Normalize_def preprocessing_def Flatten_def spec_rowwise_normalize_def
      sample_row_def upt_conv_Cons)


section \<open>Properties of the centering\<close>

lemma length_np_mean_axis0: "length (np_mean_axis0 m) = length (hd m)"
  by (simp add: np_mean_axis0_def)

lemma column_center:
  assumes "emb \<noteq> []" "\<forall>row \<in> set emb. length row = d" "j < d"
  shows "column (center emb) j = map (\<lambda>row. row ! j - np_mean_axis0 emb ! j) emb"
proof -
  have "length (hd emb) = d" using assms by (cases emb) simp_all
  then have "length (np_mean_axis0 emb) = d" by (simp add: length_np_mean_axis0)
  then show ?thesis
    using assms by (simp add: column_def center_def Let_def)
qed

lemma sum_list_shifted:
  "sum_list (map (\<lambda>x. f x - (c::real)) xs) = sum_list (map f xs) - real (length xs) * c"
  by (induction xs) (simp_all add: algebra_simps)

text \<open>
  Claim C7. After the centering step the embedding of a group (at least one row, all rows
  of the same length, 2 for t-SNE) has the same shape and mean zero in every coordinate.
\<close>

theorem center_has_zero_mean:
  assumes "emb \<noteq> []" and "\<forall>row \<in> set emb. length row = d"
  shows "length (center emb) = length emb
       \<and> (\<forall>row \<in> set (center emb). length row = d)
       \<and> np_mean_axis0 (center emb) = replicate d 0"
proof -
  have hd: "length (hd emb) = d" using assms by (cases emb) simp_all
  have lm: "length (np_mean_axis0 emb) = d" using hd by (simp add: length_np_mean_axis0)
  have len: "length (center emb) = length emb"
    using assms by (simp add: center_def Let_def)
  have rows: "\<forall>row \<in> set (center emb). length row = d"
    using assms lm by (auto simp: center_def Let_def)
  have ne: "center emb \<noteq> []" using len assms by auto
  have hd': "length (hd (center emb)) = d" using rows ne by (cases "center emb") simp_all
  have n: "real (length emb) \<noteq> 0" using assms by simp
  have "sum_list (column (center emb) j) / real (length (center emb)) = 0" if "j < d" for j
  proof -
    have m: "np_mean_axis0 emb ! j = sum_list (column emb j) / real (length emb)"
      using that hd by (simp add: np_mean_axis0_def)
    have "sum_list (column (center emb) j)
        = sum_list (column emb j) - real (length emb) * (np_mean_axis0 emb ! j)"
      unfolding column_center [OF assms that] sum_list_shifted by (simp add: column_def)
    also have "\<dots> = 0" unfolding m using n by simp
    finally show ?thesis by simp
  qed
  then have "np_mean_axis0 (center emb) = map (\<lambda>j. 0) [0 ..< d]"
    unfolding np_mean_axis0_def hd' by simp
  then have "np_mean_axis0 (center emb) = replicate d 0"
    by (simp add: map_replicate_const)
  with len rows show ?thesis by simp
qed

theorem center_has_zero_mean_witness:
  "center [[1, 5], [3, 9], [8, 1]] = [[-3, 0], [-1, 4], [4, -4]]
   \<and> np_mean_axis0 (center [[1, 5], [3, 9], [8, 1]]) = [0, 0]"
proof -
  have "np_mean_axis0 (center [[1, 5], [3, 9], [8, 1]]) = replicate 2 0"
    using center_has_zero_mean [of "[[1, 5], [3, 9], [8, 1]]" 2] by simp
  moreover have "center [[1, 5], [3, 9], [8, 1]] = [[-3, 0], [-1, 4], [4, -4]]"
    by (simp add: center_def np_mean_axis0_def column_def upt_conv_Cons)
  ultimately show ?thesis by (simp add: numeral_2_eq_2)
qed

section \<open>Properties of the data loader\<close>

lemma prepare_data_Inr:
  assumes "prepare_data fs input_root model foldsel analysis_data attribution_type
             analysis_groups loaded0 = (Inr d, loaded)"
  shows "\<exists>targets_health folds parts.
           loadmat fs (input_root @ ''/targets.mat'') = Inr targets_health
         \<and> resolve_fold foldsel = Inr folds
         \<and> load_outputs fs input_root model attribution_type folds [] []
              (loaded0 @ [input_root @ ''/targets.mat'', input_root @ ''/targets_injurytypes.mat'',
                 input_root @ ''/subject_labels.mat'', input_root @ ''/data.mat'',
                 input_root @ ''/permutation.mat'', input_root @ ''/splits.mat''])
              = (Inr parts, loaded)
         \<and> np_concatenate (fst parts) = Inr (p_y_pred d)
         \<and> np_concatenate (snd parts) = Inr (p_relevances d)
         \<and> p_R d = (if analysis_data = ''inputs'' then p_inputs d else p_relevances d)
         \<and> grouping_labels analysis_groups (p_y_pred d) targets_health (p_split_indices d)
              = Inr (p_y d)"
  using assms unfolding prepare_data_def
  by (auto simp: io_bind_eq_Inr io_pure_eq io_loadmat_eq split: prod.splits)

lemma load_analysis_data_Inr:
  assumes "load_analysis_data fs input_root model foldsel analysis_data attribution_type
             analysis_groups loaded0 = (Inr gs, loaded)"
  shows "validate_selectors fs input_root model foldsel analysis_data attribution_type
           analysis_groups = Inr ()
       \<and> (\<exists>d. prepare_data fs input_root model foldsel analysis_data attribution_type
                 analysis_groups loaded0 = (Inr d, loaded)
              \<and> group_loop d (np_unique (p_y d)) [] = Inr gs)"
  using assms unfolding load_analysis_data_def
  by (auto simp: io_bind_eq_Inr io_pure_eq)

lemma group_loop_eq_Inr:
  "group_loop d cs acc = Inr gs \<longleftrightarrow>
     (\<exists>new. comprehension (make_group d) cs = Inr new \<and> gs = acc @ new)"
proof (induction cs arbitrary: acc)
  case Nil
  then show ?case by auto
next
  case (Cons c cs)
  show ?case
    by (auto simp: and_then_eq_Inr Cons.IH)
qed

lemma np_mask_eq_Inr:
  "np_mask a sel = Inr r \<longleftrightarrow> length sel = length a \<and> r = map fst (filter snd (zip a sel))"
  by (auto simp: np_mask_def)

lemma mask_self:
  "map fst (filter snd (zip ys (map P ys))) = filter P ys"
  by (induction ys) simp_all

lemma mask_length:
  "length a = length ys \<Longrightarrow>
     length (map fst (filter snd (zip a (map P ys)))) = length (filter P ys)"
  by (induction a ys rule: list_induct2) simp_all

lemma mask_all:
  "length a = n \<Longrightarrow> map fst (filter snd (zip a (replicate n True))) = a"
  by (induction a arbitrary: n) auto

lemma make_group_Inr:
  assumes "make_group d c = Inr g"
  shows "grp_cls g = c"
    and "grp_y g = filter (\<lambda>v. v = c) (p_y d)"
    and "np_mask (p_R d) (map (\<lambda>v. v = c) (p_y d)) = Inr (grp_R g)"
    and "np_mask (p_true_injury_sublabels d) (map (\<lambda>v. v = c) (p_y d)) = Inr (grp_y_injury_type g)"
    and "np_mask (p_true_health_labels d) (map (\<lambda>v. v = c) (p_y d)) = Inr (grp_y_health_type g)"
    and "np_mask (p_true_subject_labels d) (map (\<lambda>v. v = c) (p_y d)) = Inr (grp_y_subject g)"
    and "np_mask (p_split_indices d) (map (\<lambda>v. v = c) (p_y d)) = Inr (grp_split_indices g)"
    and "np_mask (p_inputs d) (map (\<lambda>v. v = c) (p_y d)) = Inr (grp_inputs g)"
    and "np_mask (p_relevances d) (map (\<lambda>v. v = c) (p_y d)) = Inr (grp_relevances g)"
  using assms unfolding make_group_def Let_def
  by (auto simp: and_then_eq_Inr np_mask_eq_Inr mask_self)

lemma groups_of_load:
  assumes "group_loop d (np_unique (p_y d)) [] = Inr gs"
  shows "map grp_cls gs = np_unique (p_y d)"
    and "\<forall>g \<in> set gs. make_group d (grp_cls g) = Inr g"
proof -
  from assms have l: "list_all2 (\<lambda>c g. make_group d c = Inr g) (np_unique (p_y d)) gs"
    by (simp add: group_loop_eq_Inr comprehension_eq_Inr)
  then have c: "list_all2 (\<lambda>c g. grp_cls g = c \<and> make_group d c = Inr g) (np_unique (p_y d)) gs"
    by (rule list_all2_mono) (simp add: make_group_Inr(1))
  then show "map grp_cls gs = np_unique (p_y d)"
    by (induction rule: list_all2_induct) simp_all
  from c show "\<forall>g \<in> set gs. make_group d (grp_cls g) = Inr g"
    by (induction rule: list_all2_induct) simp_all
qed

lemma sum_indicator_distinct:
  "distinct cs \<Longrightarrow> (\<Sum>c\<leftarrow>cs. if y = c then 1 else 0) = (if y \<in> set cs then 1 else (0::nat))"
  by (induction cs) auto

lemma sum_length_filter_distinct:
  assumes "distinct cs" "set ys \<subseteq> set cs"
  shows "(\<Sum>c\<leftarrow>cs. length (filter (\<lambda>v. v = c) ys)) = length ys"
  using assms
proof (induction ys)
  case Nil
  then show ?case by simp
next
  case (Cons y ys)
  have "(\<Sum>c\<leftarrow>cs. length (filter (\<lambda>v. v = c) (y # ys)))
      = (\<Sum>c\<leftarrow>cs. (if y = c then 1 else 0) + length (filter (\<lambda>v. v = c) ys))"
    by (intro arg_cong [where f = sum_list] map_cong) auto
  also have "\<dots> = (\<Sum>c\<leftarrow>cs. if y = c then 1 else 0) + (\<Sum>c\<leftarrow>cs. length (filter (\<lambda>v. v = c) ys))"
    by (simp add: sum_list_addf)
  also have "(\<Sum>c\<leftarrow>cs. if y = c then 1 else 0) = (1::nat)"
    using Cons.prems by (simp add: sum_indicator_distinct)
  finally show ?case using Cons by simp
qed

lemma comprehension_length: "comprehension f xs = Inr ys \<Longrightarrow> length ys = length xs"
  by (auto simp: comprehension_eq_Inr dest: list_all2_lengthD)

lemma grouping_labels_length:
  assumes "grouping_labels analysis_groups y_pred targets_health split_indices = Inr y"
  shows "length y = (if analysis_groups = ''ground_truth'' then length split_indices
                     else length y_pred)"
  using assms unfolding grouping_labels_def np_argmax_axis1_def np_take_def
  by (auto simp: and_then_eq_Inr split: if_splits dest!: comprehension_length)

text \<open>
  Claim C2. When \<^verbatim>\<open>load_analysis_data\<close> returns, it returns one group per distinct value
  of the grouping label vector \<open>y\<close>, in ascending order of the values. Every group holds
  exactly the samples whose label is the group's (each array cut by the same mask), so
  every sample is in exactly one group, and no group is empty. The groups' sample counts
  add up to the length of \<open>y\<close>, which is the number of samples the folds select: always
  under the ground-truth policy and whenever there is a group, and under the other two
  policies when the model outputs have one row per selected sample.
\<close>

theorem load_analysis_data_partitions_by_label:
  assumes "load_analysis_data fs input_root model foldsel analysis_data attribution_type
             analysis_groups loaded0 = (Inr gs, loaded)"
  shows "\<exists>d. prepare_data fs input_root model foldsel analysis_data attribution_type
                analysis_groups loaded0 = (Inr d, loaded)
           \<and> map grp_cls gs = np_unique (p_y d)
           \<and> distinct (map grp_cls gs)
           \<and> set (map grp_cls gs) = set (p_y d)
           \<and> (\<forall>g \<in> set gs.
                 make_group d (grp_cls g) = Inr g
               \<and> grp_y g = filter (\<lambda>v. v = grp_cls g) (p_y d)
               \<and> grp_split_indices g
                   = map fst (filter (\<lambda>(i, v). v = grp_cls g) (zip (p_split_indices d) (p_y d)))
               \<and> length (grp_split_indices g) = length (grp_y g)
               \<and> grp_y g \<noteq> [])
           \<and> (\<forall>k < length (p_y d). \<exists>!g. g \<in> set gs \<and> grp_cls g = p_y d ! k)
           \<and> (\<Sum>g\<leftarrow>gs. length (grp_split_indices g)) = length (p_y d)
           \<and> (analysis_groups = ''ground_truth'' \<or> gs \<noteq> []
                \<or> length (p_y_pred d) = length (p_split_indices d)
               \<longrightarrow> (\<Sum>g\<leftarrow>gs. length (grp_split_indices g)) = length (p_split_indices d))"
proof -
  from load_analysis_data_Inr [OF assms] obtain d
    where prep: "prepare_data fs input_root model foldsel analysis_data attribution_type
                   analysis_groups loaded0 = (Inr d, loaded)"
      and loop: "group_loop d (np_unique (p_y d)) [] = Inr gs"
    by blast
  let ?y = "p_y d"
  have cls: "map grp_cls gs = np_unique ?y" and mk: "\<forall>g \<in> set gs. make_group d (grp_cls g) = Inr g"
    using groups_of_load [OF loop] by simp_all
  have dist: "distinct (map grp_cls gs)" and sets: "set (map grp_cls gs) = set ?y"
    unfolding cls by (simp_all add: np_unique_props)
  have zipsel: "filter snd (zip a (map P ys)) = map (\<lambda>(i, v). (i, P v)) (filter (\<lambda>(i, v). P v) (zip a ys))"
    for a :: "int list" and P :: "int \<Rightarrow> bool" and ys
  proof (induction a arbitrary: ys)
    case Nil
    then show ?case by simp
  next
    case (Cons x a)
    then show ?case by (cases ys) simp_all
  qed
  have per: "make_group d (grp_cls g) = Inr g
      \<and> grp_y g = filter (\<lambda>v. v = grp_cls g) ?y
      \<and> grp_split_indices g
          = map fst (filter (\<lambda>(i, v). v = grp_cls g) (zip (p_split_indices d) ?y))
      \<and> length (grp_split_indices g) = length (grp_y g)
      \<and> grp_y g \<noteq> []
      \<and> length (p_split_indices d) = length ?y" if g: "g \<in> set gs" for g
  proof -
    from mk g have m: "make_group d (grp_cls g) = Inr g" by blast
    note f = make_group_Inr [OF m]
    have len: "length (p_split_indices d) = length ?y"
      using f(7) by (simp add: np_mask_eq_Inr)
    have si: "grp_split_indices g
        = map fst (filter snd (zip (p_split_indices d) (map (\<lambda>v. v = grp_cls g) ?y)))"
      using f(7) by (simp add: np_mask_eq_Inr)
    have si': "grp_split_indices g
        = map fst (filter (\<lambda>(i, v). v = grp_cls g) (zip (p_split_indices d) ?y))"
      unfolding si zipsel by (simp add: comp_def case_prod_unfold)
    have l: "length (grp_split_indices g) = length (grp_y g)"
      unfolding si f(2) using len by (rule mask_length)
    have "grp_cls g \<in> set ?y" using g sets by auto
    then have ne: "grp_y g \<noteq> []" unfolding f(2) by (simp add: filter_empty_conv)
    from m f(2) si' l ne len show ?thesis by simp
  qed
  have uniq: "\<exists>!g. g \<in> set gs \<and> grp_cls g = ?y ! k" if k: "k < length ?y" for k
  proof -
    from k have "?y ! k \<in> set (map grp_cls gs)" unfolding sets by simp
    then obtain g where g: "g \<in> set gs" "grp_cls g = ?y ! k" by auto
    show ?thesis
    proof (rule ex1I [of _ g])
      show "g \<in> set gs \<and> grp_cls g = ?y ! k" using g by simp
    next
      fix h assume "h \<in> set gs \<and> grp_cls h = ?y ! k"
      then show "h = g" using g dist by (auto simp: distinct_map inj_on_def)
    qed
  qed
  have pl: "length (grp_split_indices g) = length (filter (\<lambda>v. v = grp_cls g) ?y)"
    if "g \<in> set gs" for g
  proof -
    from per [OF that] have "length (grp_split_indices g) = length (grp_y g)"
      and "grp_y g = filter (\<lambda>v. v = grp_cls g) ?y" by blast+
    then show ?thesis by simp
  qed
  have "(\<Sum>g\<leftarrow>gs. length (grp_split_indices g)) = (\<Sum>g\<leftarrow>gs. length (filter (\<lambda>v. v = grp_cls g) ?y))"
    by (intro arg_cong [where f = sum_list] map_cong refl pl)
  also have "\<dots> = (\<Sum>c\<leftarrow>map grp_cls gs. length (filter (\<lambda>v. v = c) ?y))"
    by (simp add: comp_def)
  also have "\<dots> = length ?y"
    using dist sets by (intro sum_length_filter_distinct) simp_all
  finally have total: "(\<Sum>g\<leftarrow>gs. length (grp_split_indices g)) = length ?y" .
  from prepare_data_Inr [OF prep]
  have gl: "length ?y = (if analysis_groups = ''ground_truth'' then length (p_split_indices d)
                         else length (p_y_pred d))"
    using grouping_labels_length by blast
  have same: "length ?y = length (p_split_indices d)"
    if "analysis_groups = ''ground_truth'' \<or> gs \<noteq> []
          \<or> length (p_y_pred d) = length (p_split_indices d)"
  proof (cases "gs = []")
    case True
    with that gl show ?thesis by (auto split: if_splits)
  next
    case False
    then obtain g where "g \<in> set gs" by (cases gs) auto
    with per show ?thesis by simp
  qed
  have per': "\<forall>g \<in> set gs.
        make_group d (grp_cls g) = Inr g
      \<and> grp_y g = filter (\<lambda>v. v = grp_cls g) ?y
      \<and> grp_split_indices g
          = map fst (filter (\<lambda>(i, v). v = grp_cls g) (zip (p_split_indices d) ?y))
      \<and> length (grp_split_indices g) = length (grp_y g)
      \<and> grp_y g \<noteq> []"
    using per by blast
  have uniq': "\<forall>k < length ?y. \<exists>!g. g \<in> set gs \<and> grp_cls g = ?y ! k"
    using uniq by blast
  have same': "analysis_groups = ''ground_truth'' \<or> gs \<noteq> []
        \<or> length (p_y_pred d) = length (p_split_indices d)
      \<longrightarrow> (\<Sum>g\<leftarrow>gs. length (grp_split_indices g)) = length (p_split_indices d)"
    using same total by simp
  show ?thesis
    by (intro exI [of _ d] conjI prep cls dist sets per' uniq' total same')
qed

lemma example_ground_truth:
  "load_analysis_data example_fs ''proj'' ''Cnn1DC8'' ''0'' ''relevance'' ''act''
     ''ground_truth'' []
   = (Inr [\<lparr>grp_cls = 0, grp_y = [0], grp_R = [[1, - 1]],
             grp_y_injury_type = [[1, 0, 0]], grp_y_health_type = [[1, 0]],
             grp_y_subject = [[1, 0]], grp_split_indices = [0],
             grp_inputs = [[1, 2]], grp_relevances = [[1, - 1]]\<rparr>,
           \<lparr>grp_cls = 1, grp_y = [1], grp_R = [[2, 0]],
             grp_y_injury_type = [[0, 1, 0]], grp_y_health_type = [[0, 1]],
             grp_y_subject = [[1, 0]], grp_split_indices = [1],
             grp_inputs = [[3, 4]], grp_relevances = [[2, 0]]\<rparr>],
      [''proj/targets.mat'', ''proj/targets_injurytypes.mat'',
       ''proj/subject_labels.mat'', ''proj/data.mat'', ''proj/permutation.mat'',
       ''proj/splits.mat'', ''proj/Injury/GRF_AV/Cnn1DC8/part-0/outputs.mat''])"
  by code_simp

theorem load_analysis_data_partitions_by_label_witness:
  "\<exists>gs loaded d.
      load_analysis_data example_fs ''proj'' ''Cnn1DC8'' ''0'' ''relevance'' ''act''
        ''ground_truth'' [] = (Inr gs, loaded)
    \<and> prepare_data example_fs ''proj'' ''Cnn1DC8'' ''0'' ''relevance'' ''act''
        ''ground_truth'' [] = (Inr d, loaded)
    \<and> map grp_cls gs = [0, 1]
    \<and> map grp_cls gs = np_unique (p_y d)
    \<and> (\<Sum>g\<leftarrow>gs. length (grp_split_indices g)) = 2
    \<and> (\<Sum>g\<leftarrow>gs. length (grp_split_indices g)) = length (p_split_indices d)"
proof -
  from example_ground_truth obtain gs loaded
    where l: "load_analysis_data example_fs ''proj'' ''Cnn1DC8'' ''0'' ''relevance'' ''act''
                ''ground_truth'' [] = (Inr gs, loaded)"
      and c: "map grp_cls gs = [0, 1]"
      and n: "(\<Sum>g\<leftarrow>gs. length (grp_split_indices g)) = 2"
    by simp
  from load_analysis_data_partitions_by_label [OF l] obtain d
    where p: "prepare_data example_fs ''proj'' ''Cnn1DC8'' ''0'' ''relevance'' ''act''
                ''ground_truth'' [] = (Inr d, loaded)"
      and u: "map grp_cls gs = np_unique (p_y d)"
      and t: "''ground_truth'' = ''ground_truth'' \<or> gs \<noteq> []
                \<or> length (p_y_pred d) = length (p_split_indices d)
              \<longrightarrow> (\<Sum>g\<leftarrow>gs. length (grp_split_indices g)) = length (p_split_indices d)"
    by blast
  from t have t': "(\<Sum>g\<leftarrow>gs. length (grp_split_indices g)) = length (p_split_indices d)"
    by simp
  show ?thesis
    by (intro exI [of _ gs] exI [of _ loaded] exI [of _ d] conjI l p c u n t')
qed

text \<open>
  Claim C6. With the data kind "inputs", the analysed data of every returned group is
  its input data.
\<close>

theorem inputs_selector_makes_R_the_inputs:
  assumes "load_analysis_data fs input_root model foldsel ''inputs'' attribution_type
             analysis_groups loaded0 = (Inr gs, loaded)"
  shows "\<forall>g \<in> set gs. grp_R g = grp_inputs g"
proof
  fix g assume g: "g \<in> set gs"
  from load_analysis_data_Inr [OF assms] obtain d
    where prep: "prepare_data fs input_root model foldsel ''inputs'' attribution_type
                   analysis_groups loaded0 = (Inr d, loaded)"
      and loop: "group_loop d (np_unique (p_y d)) [] = Inr gs"
    by blast
  from prepare_data_Inr [OF prep] have R: "p_R d = p_inputs d" by auto
  from groups_of_load(2) [OF loop] g have m: "make_group d (grp_cls g) = Inr g" by blast
  from make_group_Inr(3) [OF m] make_group_Inr(8) [OF m] show "grp_R g = grp_inputs g"
    unfolding R by simp
qed

lemma example_inputs_all:
  "load_analysis_data example_fs ''proj'' ''Cnn1DC8'' ''1'' ''inputs'' ''dom'' ''all'' []
   = (Inr [\<lparr>grp_cls = 0, grp_y = [0, 0], grp_R = [[5, 6], [7, 8]],
             grp_y_injury_type = [[1, 0, 0], [0, 0, 1]],
             grp_y_health_type = [[1, 0], [0, 1]],
             grp_y_subject = [[0, 1], [0, 1]], grp_split_indices = [2, 3],
             grp_inputs = [[5, 6], [7, 8]],
             grp_relevances = [[3, 3], [1, 1]]\<rparr>],
      [''proj/targets.mat'', ''proj/targets_injurytypes.mat'',
       ''proj/subject_labels.mat'', ''proj/data.mat'', ''proj/permutation.mat'',
       ''proj/splits.mat'', ''proj/Injury/GRF_AV/Cnn1DC8/part-1/outputs.mat''])"
  by code_simp

theorem inputs_selector_makes_R_the_inputs_witness:
  "\<exists>g loaded.
      load_analysis_data example_fs ''proj'' ''Cnn1DC8'' ''1'' ''inputs'' ''dom'' ''all'' []
        = (Inr [g], loaded)
    \<and> grp_R g = [[5, 6], [7, 8]] \<and> grp_R g = grp_inputs g"
  using inputs_selector_makes_R_the_inputs [OF example_inputs_all] example_inputs_all
  by simp

lemma np_unique_replicate:
  "np_unique (replicate n c) = (if n = 0 then [] else [c])"
proof (induction n)
  case 0
  then show ?case by (simp add: np_unique_def)
next
  case (Suc n)
  then show ?case by (cases n) (simp_all add: np_unique_def)
qed

text \<open>
  Claim C4, amended. Under the grouping policy "all" the label vector is all zeros, one
  for every prediction row of the selected folds. When there is at least one row,
  \<^verbatim>\<open>load_analysis_data\<close> returns exactly one group, with label 0, which holds every
  per-sample array whole. When there is none it returns no group.
\<close>

theorem grouping_all_yields_one_group_of_nonempty_data:
  assumes "load_analysis_data fs input_root model foldsel analysis_data attribution_type
             ''all'' loaded0 = (Inr gs, loaded)"
  shows "\<exists>d. prepare_data fs input_root model foldsel analysis_data attribution_type
                ''all'' loaded0 = (Inr d, loaded)
           \<and> p_y d = replicate (length (p_y_pred d)) 0
           \<and> (p_y_pred d = [] \<longrightarrow> gs = [])
           \<and> (p_y_pred d \<noteq> [] \<longrightarrow>
                gs = [\<lparr> grp_cls = 0, grp_y = p_y d, grp_R = p_R d,
                         grp_y_injury_type = p_true_injury_sublabels d,
                         grp_y_health_type = p_true_health_labels d,
                         grp_y_subject = p_true_subject_labels d,
                         grp_split_indices = p_split_indices d,
                         grp_inputs = p_inputs d,
                         grp_relevances = p_relevances d \<rparr>])"
proof -
  from load_analysis_data_Inr [OF assms] obtain d
    where prep: "prepare_data fs input_root model foldsel analysis_data attribution_type
                   ''all'' loaded0 = (Inr d, loaded)"
      and loop: "group_loop d (np_unique (p_y d)) [] = Inr gs"
    by blast
  let ?n = "length (p_y_pred d)"
  from prepare_data_Inr [OF prep] have y: "p_y d = replicate ?n 0"
    by (auto simp: grouping_labels_def)
  have empty: "gs = []" if "p_y_pred d = []"
    using loop that unfolding y by (simp add: np_unique_def)
  have one: "gs = [\<lparr> grp_cls = 0, grp_y = p_y d, grp_R = p_R d,
                      grp_y_injury_type = p_true_injury_sublabels d,
                      grp_y_health_type = p_true_health_labels d,
                      grp_y_subject = p_true_subject_labels d,
                      grp_split_indices = p_split_indices d,
                      grp_inputs = p_inputs d,
                      grp_relevances = p_relevances d \<rparr>]" if ne: "p_y_pred d \<noteq> []"
  proof -
    from ne have "np_unique (p_y d) = [0]" unfolding y by (simp add: np_unique_replicate)
    with loop obtain g where m: "make_group d 0 = Inr g" and gs: "gs = [g]"
      by (auto simp: and_then_eq_Inr)
    have sel: "map (\<lambda>v. v = 0) (p_y d) = replicate ?n True"
      unfolding y by simp
    have all: "a = r" if "np_mask a (replicate ?n True) = Inr r" for a r :: "'x list"
      using that by (simp add: np_mask_eq_Inr mask_all)
    note f = make_group_Inr [OF m, unfolded sel]
    have "grp_y g = p_y d" using f(2) unfolding y by simp
    moreover note f(1) all [OF f(3)] all [OF f(4)] all [OF f(5)] all [OF f(6)] all [OF f(7)]
      all [OF f(8)] all [OF f(9)]
    ultimately have "g = \<lparr> grp_cls = 0, grp_y = p_y d, grp_R = p_R d,
                      grp_y_injury_type = p_true_injury_sublabels d,
                      grp_y_health_type = p_true_health_labels d,
                      grp_y_subject = p_true_subject_labels d,
                      grp_split_indices = p_split_indices d,
                      grp_inputs = p_inputs d,
                      grp_relevances = p_relevances d \<rparr>"
      by (cases g) simp
    with gs show ?thesis by simp
  qed
  from prep y empty one show ?thesis by blast
qed

text \<open>
  The claim as stated, exactly one group for every valid input, fails on a fold without
  samples: \<^verbatim>\<open>np.unique\<close> of the empty label vector is empty, and the loop over it adds
  no group.
\<close>

theorem grouping_all_without_samples_yields_no_group:
  "load_analysis_data empty_fold_fs ''proj'' ''Cnn1DC8'' ''0'' ''relevance'' ''act'' ''all'' []
   = (Inr [],
      [''proj/targets.mat'', ''proj/targets_injurytypes.mat'',
       ''proj/subject_labels.mat'', ''proj/data.mat'', ''proj/permutation.mat'',
       ''proj/splits.mat'', ''proj/Injury/GRF_AV/Cnn1DC8/part-0/outputs.mat''])"
  by code_simp

theorem grouping_all_yields_one_group_of_nonempty_data_witness:
  "\<exists>g loaded d.
      load_analysis_data example_fs ''proj'' ''Cnn1DC8'' ''1'' ''inputs'' ''dom'' ''all'' []
        = (Inr [g], loaded)
    \<and> prepare_data example_fs ''proj'' ''Cnn1DC8'' ''1'' ''inputs'' ''dom'' ''all'' []
        = (Inr d, loaded)
    \<and> grp_cls g = 0 \<and> grp_split_indices g = [2, 3]
    \<and> grp_split_indices g = p_split_indices d \<and> grp_R g = p_R d"
proof -
  from example_inputs_all obtain g loaded
    where l: "load_analysis_data example_fs ''proj'' ''Cnn1DC8'' ''1'' ''inputs'' ''dom''
                ''all'' [] = (Inr [g], loaded)"
      and c: "grp_cls g = 0" and i: "grp_split_indices g = [2, 3]"
    by simp
  from grouping_all_yields_one_group_of_nonempty_data [OF l] obtain d
    where p: "prepare_data example_fs ''proj'' ''Cnn1DC8'' ''1'' ''inputs'' ''dom'' ''all'' []
                = (Inr d, loaded)"
      and e: "p_y_pred d = [] \<longrightarrow> [g] = []"
      and o: "p_y_pred d \<noteq> [] \<longrightarrow>
                [g] = [\<lparr> grp_cls = 0, grp_y = p_y d, grp_R = p_R d,
                         grp_y_injury_type = p_true_injury_sublabels d,
                         grp_y_health_type = p_true_health_labels d,
                         grp_y_subject = p_true_subject_labels d,
                         grp_split_indices = p_split_indices d,
                         grp_inputs = p_inputs d,
                         grp_relevances = p_relevances d \<rparr>]"
    by blast
  from e o have "grp_split_indices g = p_split_indices d" "grp_R g = p_R d" by auto
  with l p c i show ?thesis
    by (intro exI [of _ g] exI [of _ loaded] exI [of _ d]) simp
qed

lemma mat_get_eq_Inr: "mat_get v name = Inr a \<longleftrightarrow> v = Some a"
  by (cases v) (simp_all add: mat_get_def)

lemma FOLDS_value:
  "FOLDS = map (\<lambda>c. [c]) ''0123456789'' @ [''all'']"
  by code_simp

lemma resolve_fold_values:
  "map resolve_fold FOLDS
     = [Inr [0], Inr [1], Inr [2], Inr [3], Inr [4], Inr [5], Inr [6], Inr [7], Inr [8],
        Inr [9], Inr [0, 1, 2, 3, 4, 5, 6, 7, 8, 9]]"
  by code_simp

lemma str_int_digits:
  "map str_int [0, 1, 2, 3, 4, 5, 6, 7, 8, 9]
     = map (\<lambda>c. [c]) ''0123456789''"
  by code_simp

lemma load_outputs_Inr:
  assumes "load_outputs fs input_root model attribution_type folds y_pred0 R0 loaded0
             = (Inr (y_pred, R), loaded)"
  shows "\<exists>parts. length parts = length folds
           \<and> (\<forall>i < length folds. \<exists>m.
                 loadmat fs (outputs_path input_root model (folds ! i)) = Inr m
               \<and> var_y_pred m = Some (fst (parts ! i))
               \<and> get_R_pred m attribution_type = Inr (snd (parts ! i)))
           \<and> y_pred = y_pred0 @ map fst parts
           \<and> R = R0 @ map snd parts
           \<and> loaded = loaded0 @ map (outputs_path input_root model) folds"
  using assms
proof (induction folds arbitrary: y_pred0 R0 loaded0)
  case Nil
  then show ?case by (simp add: io_pure_eq)
next
  case (Cons f rest)
  from Cons.prems obtain m yp r
    where m: "loadmat fs (outputs_path input_root model f) = Inr m"
      and yp: "var_y_pred m = Some yp"
      and r: "get_R_pred m attribution_type = Inr r"
      and rec: "load_outputs fs input_root model attribution_type rest (y_pred0 @ [yp]) (R0 @ [r])
                  (loaded0 @ [outputs_path input_root model f]) = (Inr (y_pred, R), loaded)"
    by (auto simp: io_bind_eq_Inr io_pure_eq io_loadmat_eq mat_get_eq_Inr)
  from Cons.IH [OF rec] obtain parts
    where p: "length parts = length rest"
      and each: "\<forall>i < length rest. \<exists>m.
                   loadmat fs (outputs_path input_root model (rest ! i)) = Inr m
                 \<and> var_y_pred m = Some (fst (parts ! i))
                 \<and> get_R_pred m attribution_type = Inr (snd (parts ! i))"
      and y: "y_pred = (y_pred0 @ [yp]) @ map fst parts"
      and R: "R = (R0 @ [r]) @ map snd parts"
      and l: "loaded = (loaded0 @ [outputs_path input_root model f])
                 @ map (outputs_path input_root model) rest"
    by blast
  have "\<forall>i < length (f # rest). \<exists>m'.
          loadmat fs (outputs_path input_root model ((f # rest) ! i)) = Inr m'
        \<and> var_y_pred m' = Some (fst (((yp, r) # parts) ! i))
        \<and> get_R_pred m' attribution_type = Inr (snd (((yp, r) # parts) ! i))"
  proof (intro allI impI)
    fix i assume "i < length (f # rest)"
    then show "\<exists>m'. loadmat fs (outputs_path input_root model ((f # rest) ! i)) = Inr m'
        \<and> var_y_pred m' = Some (fst (((yp, r) # parts) ! i))
        \<and> get_R_pred m' attribution_type = Inr (snd (((yp, r) # parts) ! i))"
      using m yp r each by (cases i) auto
  qed
  with p y R l show ?case
    by (intro exI [of _ "(yp, r) # parts"]) simp
qed


lemma np_concatenate_eq_Inr: "np_concatenate parts = Inr a \<longleftrightarrow> parts \<noteq> [] \<and> a = concat parts"
  by (auto simp: np_concatenate_def)

text \<open>
  Claim C5. The fold selector "all" becomes the list of the fold numbers 0 to 9 in
  ascending order, any other valid selector the one-element list of its number. When
  \<^verbatim>\<open>load_analysis_data\<close> returns, it has read the outputs file of every resolved fold, in
  the order of the list and after the six files of the project root, and the predictions
  and the attributions it works with are the folds' arrays concatenated in that order.
\<close>

theorem fold_selector_resolution:
  "resolve_fold ''all'' = Inr [0, 1, 2, 3, 4, 5, 6, 7, 8, 9]
   \<and> (\<forall>f \<in> set FOLDS. f \<noteq> ''all'' \<longrightarrow> (\<exists>n. resolve_fold f = Inr [n] \<and> str_int n = f))
   \<and> (load_analysis_data fs input_root model foldsel analysis_data attribution_type
         analysis_groups loaded0 = (Inr gs, loaded) \<longrightarrow>
       (\<exists>d folds parts.
            prepare_data fs input_root model foldsel analysis_data attribution_type
              analysis_groups loaded0 = (Inr d, loaded)
          \<and> foldsel \<in> set FOLDS
          \<and> resolve_fold foldsel = Inr folds
          \<and> length parts = length folds
          \<and> (\<forall>i < length folds. \<exists>m.
                loadmat fs (outputs_path input_root model (folds ! i)) = Inr m
              \<and> var_y_pred m = Some (fst (parts ! i))
              \<and> get_R_pred m attribution_type = Inr (snd (parts ! i)))
          \<and> p_y_pred d = concat (map fst parts)
          \<and> p_relevances d = concat (map snd parts)
          \<and> loaded = loaded0
               @ [input_root @ ''/targets.mat'', input_root @ ''/targets_injurytypes.mat'',
                  input_root @ ''/subject_labels.mat'', input_root @ ''/data.mat'',
                  input_root @ ''/permutation.mat'', input_root @ ''/splits.mat'']
               @ map (outputs_path input_root model) folds))"
proof (intro conjI impI)
  show "resolve_fold ''all'' = Inr [0, 1, 2, 3, 4, 5, 6, 7, 8, 9]"
    using resolve_fold_values by (simp add: FOLDS_value)
  show "\<forall>f \<in> set FOLDS. f \<noteq> ''all'' \<longrightarrow> (\<exists>n. resolve_fold f = Inr [n] \<and> str_int n = f)"
    using resolve_fold_values str_int_digits by (simp add: FOLDS_value)
next
  assume load: "load_analysis_data fs input_root model foldsel analysis_data attribution_type
         analysis_groups loaded0 = (Inr gs, loaded)"
  from load_analysis_data_Inr [OF load] obtain d
    where valid: "validate_selectors fs input_root model foldsel analysis_data attribution_type
                    analysis_groups = Inr ()"
      and prep: "prepare_data fs input_root model foldsel analysis_data attribution_type
                   analysis_groups loaded0 = (Inr d, loaded)"
    by blast
  from valid have member: "foldsel \<in> set FOLDS"
    by (auto simp: validate_selectors_def and_then_eq_Inr py_assert_def split: if_splits)
  let ?six = "[input_root @ ''/targets.mat'', input_root @ ''/targets_injurytypes.mat'',
               input_root @ ''/subject_labels.mat'', input_root @ ''/data.mat'',
               input_root @ ''/permutation.mat'', input_root @ ''/splits.mat'']"
  from prepare_data_Inr [OF prep] obtain folds yps Rs
    where folds: "resolve_fold foldsel = Inr folds"
      and outs: "load_outputs fs input_root model attribution_type folds [] [] (loaded0 @ ?six)
                   = (Inr (yps, Rs), loaded)"
      and cy: "np_concatenate yps = Inr (p_y_pred d)"
      and cR: "np_concatenate Rs = Inr (p_relevances d)"
    by (metis prod.collapse)
  from load_outputs_Inr [OF outs] obtain parts
    where len: "length parts = length folds"
      and each: "\<forall>i < length folds. \<exists>m.
                   loadmat fs (outputs_path input_root model (folds ! i)) = Inr m
                 \<and> var_y_pred m = Some (fst (parts ! i))
                 \<and> get_R_pred m attribution_type = Inr (snd (parts ! i))"
      and y: "yps = [] @ map fst parts"
      and R: "Rs = [] @ map snd parts"
      and l: "loaded = (loaded0 @ ?six) @ map (outputs_path input_root model) folds"
    by blast
  have y': "p_y_pred d = concat (map fst parts)"
    using cy y by (simp add: np_concatenate_eq_Inr)
  have R': "p_relevances d = concat (map snd parts)"
    using cR R by (simp add: np_concatenate_eq_Inr)
  have l': "loaded = loaded0 @ ?six @ map (outputs_path input_root model) folds"
    using l by simp
  show "\<exists>d folds parts.
            prepare_data fs input_root model foldsel analysis_data attribution_type
              analysis_groups loaded0 = (Inr d, loaded)
          \<and> foldsel \<in> set FOLDS
          \<and> resolve_fold foldsel = Inr folds
          \<and> length parts = length folds
          \<and> (\<forall>i < length folds. \<exists>m.
                loadmat fs (outputs_path input_root model (folds ! i)) = Inr m
              \<and> var_y_pred m = Some (fst (parts ! i))
              \<and> get_R_pred m attribution_type = Inr (snd (parts ! i)))
          \<and> p_y_pred d = concat (map fst parts)
          \<and> p_relevances d = concat (map snd parts)
          \<and> loaded = loaded0 @ ?six @ map (outputs_path input_root model) folds"
    by (intro exI [of _ d] exI [of _ folds] exI [of _ parts] conjI prep member folds len each
        y' R' l')
qed

theorem fold_selector_resolution_witness:
  "resolve_fold ''7'' = Inr [7]
   \<and> (\<exists>gs d loaded.
         load_analysis_data example_fs ''proj'' ''Cnn1DC8'' ''1'' ''inputs'' ''dom'' ''all'' []
           = (Inr gs, loaded)
       \<and> prepare_data example_fs ''proj'' ''Cnn1DC8'' ''1'' ''inputs'' ''dom'' ''all'' []
           = (Inr d, loaded)
       \<and> resolve_fold ''1'' = Inr [1]
       \<and> loaded = [''proj/targets.mat'', ''proj/targets_injurytypes.mat'',
            ''proj/subject_labels.mat'', ''proj/data.mat'', ''proj/permutation.mat'',
            ''proj/splits.mat'', ''proj/Injury/GRF_AV/Cnn1DC8/part-1/outputs.mat''])"
proof -
  note T = fold_selector_resolution
    [of example_fs "''proj''" "''Cnn1DC8''" "''1''" "''inputs''" "''dom''" "''all''" "[]"]
  from example_inputs_all obtain gs loaded
    where l: "load_analysis_data example_fs ''proj'' ''Cnn1DC8'' ''1'' ''inputs'' ''dom''
                ''all'' [] = (Inr gs, loaded)"
      and ld: "loaded = [''proj/targets.mat'', ''proj/targets_injurytypes.mat'',
            ''proj/subject_labels.mat'', ''proj/data.mat'', ''proj/permutation.mat'',
            ''proj/splits.mat'', ''proj/Injury/GRF_AV/Cnn1DC8/part-1/outputs.mat'']"
    by simp
  from T [of gs loaded] have all: "\<forall>f \<in> set FOLDS. f \<noteq> ''all'' \<longrightarrow>
      (\<exists>n. resolve_fold f = Inr [n] \<and> str_int n = f)"
    by blast
  have "''7'' \<in> set FOLDS" by (simp add: FOLDS_value)
  with all obtain n where n: "resolve_fold ''7'' = Inr [n]" "str_int n = ''7''" by auto
  have "resolve_fold ''7'' = Inr [7]" by code_simp
  with n have seven: "resolve_fold ''7'' = Inr [7] \<and> str_int 7 = ''7''" by simp
  have one: "resolve_fold ''1'' = Inr [1]" by code_simp
  from T [of gs loaded] l obtain d
    where p: "prepare_data example_fs ''proj'' ''Cnn1DC8'' ''1'' ''inputs'' ''dom'' ''all'' []
                = (Inr d, loaded)"
    by blast
  show ?thesis
    by (intro conjI conjunct1 [OF seven] exI [of _ gs] exI [of _ d] exI [of _ loaded] l p one ld)
qed

section \<open>Properties of the validation\<close>






text \<open>
  The words before the quoted value are "Invalid model argument" also when the fold, the
  data kind or the attribution type is the one refused (lines 65 to 67).
\<close>

lemma invalid_fold_message:
  "load_analysis_data example_fs ''proj'' ''Cnn1DC8'' ''10'' ''relevance'' ''act'' ''all'' []
     = (Inl (AssertionError (''Invalid model argument \"10\". Pick from: ''
          @ ''['' @ [CHR 0x27] @ ''0'' @ [CHR 0x27] @ '', '' @ [CHR 0x27] @ ''1'' @ [CHR 0x27]
          @ '', '' @ [CHR 0x27] @ ''2'' @ [CHR 0x27] @ '', '' @ [CHR 0x27] @ ''3'' @ [CHR 0x27]
          @ '', '' @ [CHR 0x27] @ ''4'' @ [CHR 0x27] @ '', '' @ [CHR 0x27] @ ''5'' @ [CHR 0x27]
          @ '', '' @ [CHR 0x27] @ ''6'' @ [CHR 0x27] @ '', '' @ [CHR 0x27] @ ''7'' @ [CHR 0x27]
          @ '', '' @ [CHR 0x27] @ ''8'' @ [CHR 0x27] @ '', '' @ [CHR 0x27] @ ''9'' @ [CHR 0x27]
          @ '', '' @ [CHR 0x27] @ ''all'' @ [CHR 0x27] @ '']'')), [])"
  by code_simp


section \<open>Properties of the loop over the groups\<close>

text \<open>
  Claim C8. With saving enabled and the output root an existing plain file, saving a
  group prints the message about the collision, raises nothing and leaves the file
  system as it is. The loop goes on: when the pipeline and the drawing succeed for the
  selected groups, the run ends without an exception, and for every group in turn it has
  printed either the line that it skips the group or the line that it processes it
  followed by the message about the collision.
\<close>

theorem output_root_collision_is_reported:
  assumes "arg_save_results A" and "isfile fs (arg_output A)"
    and "\<forall>e \<in> set es. arg_group_index A \<in> set [''all'', str_int (grp_cls e)] \<longrightarrow>
           (\<exists>clusterings emb. pipeline A (grp_R e) = Inr (clusterings, emb)
              \<and> draw A e clusterings (center emb) = Inr ())"
  shows "save_group A fs c
           = (Inr fs, [''Can not save results in \"'' @ arg_output A
                         @ ''\", exists as FILE already!''])
       \<and> main_loop pipeline draw A es fs printed
           = (Inr fs,
              printed @ concat (map (\<lambda>e.
                if arg_group_index A \<in> set [''all'', str_int (grp_cls e)] then
                  [''    process \"'' @ arg_attribution_type A @ ''\" relevance for class ''
                     @ str_int (grp_cls e) @ '' ('' @ arg_analysis_groups A @ '') as per ''
                     @ arg_model A,
                   ''Can not save results in \"'' @ arg_output A
                     @ ''\", exists as FILE already!'']
                else
                  [''    skipping group/class '' @ str_int (grp_cls e)
                     @ '' analysis as per --group_index specification'']) es))"
proof
  show save: "save_group A fs c
           = (Inr fs, [''Can not save results in \"'' @ arg_output A
                         @ ''\", exists as FILE already!''])" for c
    using assms(1,2) by (simp add: save_group_def)
  show "main_loop pipeline draw A es fs printed
           = (Inr fs,
              printed @ concat (map (\<lambda>e.
                if arg_group_index A \<in> set [''all'', str_int (grp_cls e)] then
                  [''    process \"'' @ arg_attribution_type A @ ''\" relevance for class ''
                     @ str_int (grp_cls e) @ '' ('' @ arg_analysis_groups A @ '') as per ''
                     @ arg_model A,
                   ''Can not save results in \"'' @ arg_output A
                     @ ''\", exists as FILE already!'']
                else
                  [''    skipping group/class '' @ str_int (grp_cls e)
                     @ '' analysis as per --group_index specification'']) es))"
    using assms(3)
  proof (induction es arbitrary: printed)
    case Nil
    then show ?case by simp
  next
    case (Cons e es)
    then have rest: "\<forall>e \<in> set es. arg_group_index A \<in> set [''all'', str_int (grp_cls e)] \<longrightarrow>
           (\<exists>clusterings emb. pipeline A (grp_R e) = Inr (clusterings, emb)
              \<and> draw A e clusterings (center emb) = Inr ())"
      by simp
    note IH = Cons.IH [OF rest]
    show ?case
    proof (cases "arg_group_index A \<in> set [''all'', str_int (grp_cls e)]")
      case False
      then show ?thesis by (simp add: IH)
    next
      case True
      with Cons.prems obtain clusterings emb
        where p: "pipeline A (grp_R e) = Inr (clusterings, emb)"
          and d: "draw A e clusterings (center emb) = Inr ()"
        by auto
      from True show ?thesis
        by (simp add: p d save IH Let_def)
    qed
  qed
qed


lemma str_int_0_1: "str_int 0 = ''0''" "str_int 1 = ''1''"
  by code_simp+

theorem output_root_collision_is_reported_witness:
  "main_loop (\<lambda>A R. Inr ([], [])) (\<lambda>A e clusterings emb. Inr ())
     (default_ARGS\<lparr>arg_group_index := ''1'', arg_output := ''proj/data.mat'',
        arg_save_results := True\<rparr>)
     example_groups example_fs []
   = (Inr example_fs,
      [''    skipping group/class 0 analysis as per --group_index specification'',
       ''    process \"act\" relevance for class 1 (ground_truth) as per Cnn1DC8'',
       ''Can not save results in \"proj/data.mat\", exists as FILE already!''])"
proof -
  let ?A = "default_ARGS\<lparr>arg_group_index := ''1'', arg_output := ''proj/data.mat'',
        arg_save_results := True\<rparr>"
  have s: "arg_save_results ?A" by simp
  have f: "isfile example_fs (arg_output ?A)" by code_simp
  have p: "\<forall>e \<in> set example_groups.
      arg_group_index ?A \<in> set [''all'', str_int (grp_cls e)] \<longrightarrow>
        (\<exists>clusterings emb.
           (\<lambda>A R. Inr ([], [])) ?A (grp_R e) = Inr (clusterings :: int list list, emb)
         \<and> (\<lambda>A e clusterings emb. Inr ()) ?A e clusterings (center emb) = Inr ())"
    by simp
  from output_root_collision_is_reported [OF s f p, of 0 "[]"]
  show ?thesis
    by (simp add: example_groups_def default_ARGS_def str_int_0_1)
qed

end
